theory Spec2Isabelle
  imports Main "HOL-Library.Sublist" "HOL-Library.Multiset"
begin

section \<open>Python strings\<close>

text \<open>
  A Python \<open>str\<close> is modelled by the list of bytes of its UTF-8 encoding, so that every
  string of the program is a \<^typ>\<open>string\<close> and every ASCII literal of the source is
  written as it stands. \<open>startswith\<close> and \<open>endswith\<close> are \<^const>\<open>prefix\<close> and
  \<^const>\<open>suffix\<close>; the slices \<open>s[7:]\<close> and \<open>s[:-3]\<close> are \<open>drop 7 s\<close> and
  \<open>take (length s - 3) s\<close> (both are only taken after an ASCII marker of that length
  was found, so bytes and code points agree).

  \<open>str.strip()\<close> removes the code points for which \<open>str.isspace\<close> holds; the table below
  lists their UTF-8 encodings (U+0009..U+000D, U+001C..U+0020, U+0085, U+00A0, U+1680,
  U+2000..U+200A, U+2028, U+2029, U+202F, U+205F, U+3000).
\<close>

definition unicode_spaces :: "string list" where
  "unicode_spaces =
     [[CHR 0x09], [CHR 0x0A], [CHR 0x0B], [CHR 0x0C], [CHR 0x0D],
      [CHR 0x1C], [CHR 0x1D], [CHR 0x1E], [CHR 0x1F], [CHR 0x20],
      [CHR 0xC2, CHR 0x85], [CHR 0xC2, CHR 0xA0],
      [CHR 0xE1, CHR 0x9A, CHR 0x80],
      [CHR 0xE2, CHR 0x80, CHR 0x80], [CHR 0xE2, CHR 0x80, CHR 0x81],
      [CHR 0xE2, CHR 0x80, CHR 0x82], [CHR 0xE2, CHR 0x80, CHR 0x83],
      [CHR 0xE2, CHR 0x80, CHR 0x84], [CHR 0xE2, CHR 0x80, CHR 0x85],
      [CHR 0xE2, CHR 0x80, CHR 0x86], [CHR 0xE2, CHR 0x80, CHR 0x87],
      [CHR 0xE2, CHR 0x80, CHR 0x88], [CHR 0xE2, CHR 0x80, CHR 0x89],
      [CHR 0xE2, CHR 0x80, CHR 0x8A],
      [CHR 0xE2, CHR 0x80, CHR 0xA8], [CHR 0xE2, CHR 0x80, CHR 0xA9],
      [CHR 0xE2, CHR 0x80, CHR 0xAF], [CHR 0xE2, CHR 0x81, CHR 0x9F],
      [CHR 0xE3, CHR 0x80, CHR 0x80]]"

text \<open>\<open>strip_seqs ws s\<close> removes from the front of \<open>s\<close> every leading occurrence of a
  sequence of \<open>ws\<close>.\<close>

function strip_seqs :: "string list \<Rightarrow> string \<Rightarrow> string" where
  "strip_seqs ws s =
     (case find (\<lambda>w. w \<noteq> [] \<and> prefix w s) ws of
        None \<Rightarrow> s
      | Some w \<Rightarrow> strip_seqs ws (drop (length w) s))"
  by pat_completeness auto
termination
  by (relation "measure (\<lambda>(ws, s). length s)")
     (auto simp: find_Some_iff prefix_def)

declare strip_seqs.simps [simp del]

definition lstrip :: "string \<Rightarrow> string" where
  "lstrip s = strip_seqs unicode_spaces s"

definition rstrip :: "string \<Rightarrow> string" where
  "rstrip s = rev (strip_seqs (map rev unicode_spaces) (rev s))"

definition strip :: "string \<Rightarrow> string" where
  "strip s = rstrip (lstrip s)"

text \<open>\<open>needle in hay\<close> on strings.\<close>

fun contains :: "string \<Rightarrow> string \<Rightarrow> bool" where
  "contains needle [] = (needle = [])"
| "contains needle (c # cs) = (prefix needle (c # cs) \<or> contains needle cs)"

text \<open>\<open>str(n)\<close> for an integer, and a decimal field padded with zeros to a width, as
  the format \<open>%0wd\<close> writes it.\<close>

definition digit_char :: "nat \<Rightarrow> char" where
  "digit_char d = ''0123456789'' ! d"

fun str_nat :: "nat \<Rightarrow> string" where
  "str_nat n = (if n < 10 then [digit_char n] else str_nat (n div 10) @ [digit_char (n mod 10)])"

declare str_nat.simps [simp del]

definition str_int :: "int \<Rightarrow> string" where
  "str_int i = (if i < 0 then CHR ''-'' # str_nat (nat (- i)) else str_nat (nat i))"

definition zero_pad :: "nat \<Rightarrow> nat \<Rightarrow> string" where
  "zero_pad w n = replicate (w - length (str_nat n)) CHR ''0'' @ str_nat n"

section \<open>Python values\<close>

text \<open>
  A \<open>datetime\<close> is its seven fields. A \<open>float\<close> is kept symbolic: \<open>FloatOfInt n\<close> is
  \<open>float(n)\<close> and \<open>FloatOfStr s\<close> is \<open>float(s)\<close>; no rounding and no float arithmetic is
  modelled, and no statement below compares two floats that were built differently.
  \<open>pyobj\<close> is the universe of dynamically typed values that \<open>json.loads\<close> returns and
  that \<open>model_dump\<close> produces; a \<open>dict\<close> is an association list with distinct keys in
  insertion order.
\<close>

record datetime =
  year :: nat
  month :: nat
  day :: nat
  hour :: nat
  minute :: nat
  second :: nat
  microsecond :: nat

datatype pyfloat = FloatOfInt int | FloatOfStr string

datatype pyobj =
    PNone
  | PBool bool
  | PInt int
  | PFloat pyfloat
  | PStr string
  | PList "pyobj list"
  | PDict "(string \<times> pyobj) list"
  | PDatetime datetime

type_synonym pydict = "(string \<times> pyobj) list"

fun dict_set :: "(string \<times> 'v) list \<Rightarrow> string \<Rightarrow> 'v \<Rightarrow> (string \<times> 'v) list" where
  "dict_set [] k v = [(k, v)]"
| "dict_set ((k', v') # kvs) k v =
     (if k' = k then (k, v) # kvs else (k', v') # dict_set kvs k v)"

definition dict_get :: "(string \<times> 'v) list \<Rightarrow> string \<Rightarrow> 'v option" where
  "dict_get d k = map_of d k"

definition dict_keys :: "(string \<times> 'v) list \<Rightarrow> string list" where
  "dict_keys d = map fst d"

text \<open>\<open>datetime.isoformat()\<close> of a naive datetime: the fraction is written only when the
  microsecond is not zero.\<close>

definition isoformat :: "datetime \<Rightarrow> string" where
  "isoformat d =
     zero_pad 4 (year d) @ ''-'' @ zero_pad 2 (month d) @ ''-'' @ zero_pad 2 (day d) @ ''T'' @
     zero_pad 2 (hour d) @ '':'' @ zero_pad 2 (minute d) @ '':'' @ zero_pad 2 (second d) @
     (if microsecond d = 0 then [] else ''.'' @ zero_pad 6 (microsecond d))"

section \<open>\<open>json.loads\<close>\<close>

text \<open>
  The decoder of Python's \<open>json\<close> module, in two passes over the bytes: \<open>tokenize\<close> reads
  the lexical elements (dropping the four JSON whitespace characters between them), and
  \<open>parse_tokens\<close> runs the grammar with an explicit stack of the containers that are
  open. \<open>None\<close> is \<open>JSONDecodeError\<close>. As the decoder does, the model reads \<open>NaN\<close>,
  \<open>Infinity\<close> and \<open>-Infinity\<close>, rejects control characters inside strings, pairs
  surrogate escapes, and keeps the last value of a repeated key. The interpreter's
  resource limits (recursion depth, the digit limit of \<open>int\<close>) are not modelled.
\<close>

definition json_ws :: "char \<Rightarrow> bool" where
  "json_ws c \<longleftrightarrow> c = CHR '' '' \<or> c = CHR 0x09 \<or> c = CHR 0x0A \<or> c = CHR 0x0D"

definition is_digit :: "char \<Rightarrow> bool" where
  "is_digit c \<longleftrightarrow> (48::nat) \<le> of_char c \<and> (of_char c :: nat) \<le> 57"

definition digit_val :: "char \<Rightarrow> nat" where
  "digit_val c = of_char c - 48"

definition nat_of_digits :: "string \<Rightarrow> nat" where
  "nat_of_digits ds = foldl (\<lambda>n c. 10 * n + digit_val c) 0 ds"

definition hex_val :: "char \<Rightarrow> nat option" where
  "hex_val c =
     (let n = (of_char c :: nat) in
      if 48 \<le> n \<and> n \<le> 57 then Some (n - 48)
      else if 97 \<le> n \<and> n \<le> 102 then Some (n - 87)
      else if 65 \<le> n \<and> n \<le> 70 then Some (n - 55)
      else None)"

fun hex4 :: "string \<Rightarrow> (nat \<times> string) option" where
  "hex4 (a # b # c # d # r) =
     (case (hex_val a, hex_val b, hex_val c, hex_val d) of
        (Some x, Some y, Some z, Some w) \<Rightarrow> Some (((x * 16 + y) * 16 + z) * 16 + w, r)
      | _ \<Rightarrow> None)"
| "hex4 _ = None"

definition utf8_encode :: "nat \<Rightarrow> string" where
  "utf8_encode cp =
     (if cp < 0x80 then [char_of cp]
      else if cp < 0x800 then [char_of (0xC0 + cp div 64), char_of (0x80 + cp mod 64)]
      else if cp < 0x10000 then
        [char_of (0xE0 + cp div 4096), char_of (0x80 + cp div 64 mod 64),
         char_of (0x80 + cp mod 64)]
      else
        [char_of (0xF0 + cp div 262144), char_of (0x80 + cp div 4096 mod 64),
         char_of (0x80 + cp div 64 mod 64), char_of (0x80 + cp mod 64)])"

definition simple_escape :: "char \<Rightarrow> char option" where
  "simple_escape e =
     (if e = CHR 0x22 then Some (CHR 0x22)
      else if e = CHR 0x5C then Some (CHR 0x5C)
      else if e = CHR ''/'' then Some (CHR ''/'')
      else if e = CHR ''b'' then Some (CHR 0x08)
      else if e = CHR ''f'' then Some (CHR 0x0C)
      else if e = CHR ''n'' then Some (CHR 0x0A)
      else if e = CHR ''r'' then Some (CHR 0x0D)
      else if e = CHR ''t'' then Some (CHR 0x09)
      else None)"

text \<open>\<open>escape s\<close> decodes the escape that follows a backslash: the bytes it stands for and
  the text after it.\<close>

definition escape :: "string \<Rightarrow> (string \<times> string) option" where
  "escape s =
     (case s of
        [] \<Rightarrow> None
      | e # t \<Rightarrow>
          if e = CHR ''u'' then
            (case hex4 t of
               None \<Rightarrow> None
             | Some (u, r) \<Rightarrow>
                 if 0xD800 \<le> u \<and> u \<le> 0xDBFF \<and> prefix [CHR 0x5C, CHR ''u''] r then
                   (case hex4 (drop 2 r) of
                      None \<Rightarrow> None
                    | Some (u2, r2) \<Rightarrow>
                        if 0xDC00 \<le> u2 \<and> u2 \<le> 0xDFFF
                        then Some (utf8_encode (0x10000 + (u - 0xD800) * 1024 + (u2 - 0xDC00)), r2)
                        else Some (utf8_encode u, r))
                 else Some (utf8_encode u, r))
          else (case simple_escape e of None \<Rightarrow> None | Some c \<Rightarrow> Some ([c], t)))"

lemma hex4_length: "hex4 s = Some (u, r) \<Longrightarrow> length r < length s"
  by (induction s rule: hex4.induct) (auto split: option.splits)

lemma escape_length: "escape s = Some (bs, r) \<Longrightarrow> length r < length s"
  by (auto simp: escape_def split: list.splits if_splits option.splits
      dest!: hex4_length)

text \<open>\<open>scanstring s\<close> reads a string literal whose opening quote has been consumed.\<close>

function scanstring :: "string \<Rightarrow> (string \<times> string) option" where
  "scanstring [] = None"
| "scanstring (c # s) =
     (if c = CHR 0x22 then Some ([], s)
      else if c = CHR 0x5C then
        (case escape s of
           None \<Rightarrow> None
         | Some (bs, r) \<Rightarrow>
             (case scanstring r of None \<Rightarrow> None | Some (v, r') \<Rightarrow> Some (bs @ v, r')))
      else if (of_char c :: nat) < 0x20 then None
      else (case scanstring s of None \<Rightarrow> None | Some (v, r') \<Rightarrow> Some (c # v, r')))"
  by pat_completeness auto
termination
  by (relation "measure length") (auto dest: escape_length)

lemma scanstring_length: "scanstring s = Some (v, r) \<Longrightarrow> length r < length s"
proof (induction s arbitrary: v r rule: scanstring.induct)
  case 1
  then show ?case by simp
next
  case (2 c s)
  then show ?case
    by (fastforce split: if_splits option.splits dest: escape_length)
qed

text \<open>A number is the longest match of
  \<open>(-?(?:0|[1-9][0-9]*))(\.[0-9]+)?([eE][-+]?[0-9]+)?\<close>: an \<open>int\<close> when there is neither
  fraction nor exponent, a \<open>float\<close> of the matched text otherwise.\<close>

definition scan_int_part :: "string \<Rightarrow> (string \<times> string) option" where
  "scan_int_part s =
     (case s of
        [] \<Rightarrow> None
      | d # t \<Rightarrow>
          if d = CHR ''0'' then Some ([d], t)
          else if is_digit d then Some (d # takeWhile is_digit t, dropWhile is_digit t)
          else None)"

definition scan_frac :: "string \<Rightarrow> string \<times> string" where
  "scan_frac s =
     (case s of
        p # d # t \<Rightarrow>
          if p = CHR ''.'' \<and> is_digit d
          then (p # d # takeWhile is_digit t, dropWhile is_digit t)
          else ([], s)
      | _ \<Rightarrow> ([], s))"

definition scan_exp :: "string \<Rightarrow> string \<times> string" where
  "scan_exp s =
     (case s of
        [] \<Rightarrow> ([], s)
      | e # t \<Rightarrow>
          if e = CHR ''e'' \<or> e = CHR ''E'' then
            (let (sg, u) = (case t of
                              [] \<Rightarrow> ([], t)
                            | g # u \<Rightarrow> if g = CHR ''+'' \<or> g = CHR ''-'' then ([g], u) else ([], t))
             in (case u of
                   [] \<Rightarrow> ([], s)
                 | d # v \<Rightarrow>
                     if is_digit d
                     then (e # sg @ d # takeWhile is_digit v, dropWhile is_digit v)
                     else ([], s)))
          else ([], s))"

definition scan_number :: "string \<Rightarrow> (pyobj \<times> string) option" where
  "scan_number s =
     (let (sg, s1) = (case s of
                        [] \<Rightarrow> ([], s)
                      | m # t \<Rightarrow> if m = CHR ''-'' then ([m], t) else ([], s))
      in (case scan_int_part s1 of
            None \<Rightarrow> None
          | Some (ds, s2) \<Rightarrow>
              (let (fr, s3) = scan_frac s2; (ex, s4) = scan_exp s3
               in if fr = [] \<and> ex = []
                  then Some (PInt (if sg = [] then int (nat_of_digits ds)
                                   else - int (nat_of_digits ds)), s4)
                  else Some (PFloat (FloatOfStr (sg @ ds @ fr @ ex)), s4))))"

lemma scan_number_length: "scan_number s = Some (v, r) \<Longrightarrow> length r < length s"
proof -
  have dw: "length (dropWhile is_digit t) \<le> length t" for t
    by (rule length_dropWhile_le)
  have fr: "length (snd (scan_frac t)) \<le> length t" for t
    using dw by (auto simp: scan_frac_def split: list.splits intro: le_SucI)
  have ex: "length (snd (scan_exp t)) \<le> length t" for t
    using dw by (auto simp: scan_exp_def Let_def split: list.splits prod.splits intro: le_SucI)
  have ip: "scan_int_part t = Some (ds, u) \<Longrightarrow> length u < length t" for t ds u
    using dw by (auto simp: scan_int_part_def split: list.splits if_splits intro: le_imp_less_Suc)
  assume a: "scan_number s = Some (v, r)"
  obtain sg s1 where sg: "(case s of [] \<Rightarrow> ([], s)
      | m # t \<Rightarrow> if m = CHR ''-'' then ([m], t) else ([], s)) = (sg, s1)"
    by (cases "case s of [] \<Rightarrow> ([], s) | m # t \<Rightarrow> if m = CHR ''-'' then ([m], t) else ([], s)")
  then have s1: "length s1 \<le> length s"
    by (auto split: list.splits if_splits)
  from a sg obtain ds s2 where i: "scan_int_part s1 = Some (ds, s2)"
    by (auto simp: scan_number_def split: option.splits)
  from a sg i have "r = snd (scan_exp (snd (scan_frac s2)))"
    by (auto simp: scan_number_def Let_def split: prod.splits if_splits)
  then have "length r \<le> length s2"
    using fr [of s2] ex [of "snd (scan_frac s2)"] by simp
  with ip [OF i] s1 show ?thesis by simp
qed

datatype token =
    TLBrace | TRBrace | TLBrack | TRBrack | TColon | TComma
  | TVal pyobj

definition cons_token :: "token \<Rightarrow> token list option \<Rightarrow> token list option" where
  "cons_token t r = map_option ((#) t) r"

function tokenize :: "string \<Rightarrow> token list option" where
  "tokenize [] = Some []"
| "tokenize (c # s) =
     (if json_ws c then tokenize s
      else if c = CHR ''{'' then cons_token TLBrace (tokenize s)
      else if c = CHR ''}'' then cons_token TRBrace (tokenize s)
      else if c = CHR ''['' then cons_token TLBrack (tokenize s)
      else if c = CHR '']'' then cons_token TRBrack (tokenize s)
      else if c = CHR '':'' then cons_token TColon (tokenize s)
      else if c = CHR '','' then cons_token TComma (tokenize s)
      else if c = CHR 0x22 then
        (case scanstring s of
           None \<Rightarrow> None
         | Some (v, r) \<Rightarrow> cons_token (TVal (PStr v)) (tokenize r))
      else if prefix ''null'' (c # s) then cons_token (TVal PNone) (tokenize (drop 3 s))
      else if prefix ''true'' (c # s) then cons_token (TVal (PBool True)) (tokenize (drop 3 s))
      else if prefix ''false'' (c # s) then cons_token (TVal (PBool False)) (tokenize (drop 4 s))
      else
        (case scan_number (c # s) of
           Some (v, r) \<Rightarrow> cons_token (TVal v) (tokenize r)
         | None \<Rightarrow>
             if prefix ''NaN'' (c # s)
             then cons_token (TVal (PFloat (FloatOfStr ''NaN''))) (tokenize (drop 2 s))
             else if prefix ''Infinity'' (c # s)
             then cons_token (TVal (PFloat (FloatOfStr ''Infinity''))) (tokenize (drop 7 s))
             else if prefix ''-Infinity'' (c # s)
             then cons_token (TVal (PFloat (FloatOfStr ''-Infinity''))) (tokenize (drop 8 s))
             else None))"
  by pat_completeness auto
termination
  by (relation "measure length")
     (auto dest: scanstring_length scan_number_length intro: le_imp_less_Suc)

text \<open>The grammar. A frame is a container that is still open: an array with the elements
  read so far (last first), or an object with its pairs and, once a key was read, that
  key. The state says what may come next.\<close>

datatype frame =
    FArr "pyobj list"
  | FObj "(string \<times> pyobj) list"
  | FKey "(string \<times> pyobj) list" string

datatype expect =
    EValue            \<comment> \<open>a value must follow\<close>
  | EValueOrEnd       \<comment> \<open>after \<open>[\<close>: a value or \<open>]\<close>\<close>
  | EKeyOrEnd         \<comment> \<open>after \<open>{\<close>: a key or \<open>}\<close>\<close>
  | EKey              \<comment> \<open>after a comma in an object: a key\<close>
  | EColon            \<comment> \<open>after a key\<close>
  | ECommaOrEnd       \<comment> \<open>after a value inside a container\<close>
  | EDone pyobj       \<comment> \<open>the document is complete\<close>

text \<open>\<open>put v st\<close> hands a finished value to the innermost open container.\<close>

fun put :: "pyobj \<Rightarrow> frame list \<Rightarrow> (frame list \<times> expect) option" where
  "put v [] = Some ([], EDone v)"
| "put v (FArr xs # st) = Some (FArr (v # xs) # st, ECommaOrEnd)"
| "put v (FKey kvs k # st) = Some (FObj (dict_set kvs k v) # st, ECommaOrEnd)"
| "put v (FObj kvs # st) = None"

fun step :: "frame list \<times> expect \<Rightarrow> token \<Rightarrow> (frame list \<times> expect) option" where
  "step (st, EDone v) t = None"
| "step (st, EColon) t = (if t = TColon then Some (st, EValue) else None)"
| "step (st, ECommaOrEnd) t =
     (case (t, st) of
        (TComma, FArr xs # r) \<Rightarrow> Some (st, EValue)
      | (TComma, FObj kvs # r) \<Rightarrow> Some (st, EKey)
      | (TRBrack, FArr xs # r) \<Rightarrow> put (PList (rev xs)) r
      | (TRBrace, FObj kvs # r) \<Rightarrow> put (PDict kvs) r
      | _ \<Rightarrow> None)"
| "step (st, EKey) t =
     (case (t, st) of
        (TVal (PStr k), FObj kvs # r) \<Rightarrow> Some (FKey kvs k # r, EColon)
      | _ \<Rightarrow> None)"
| "step (st, EKeyOrEnd) t =
     (case (t, st) of
        (TVal (PStr k), FObj kvs # r) \<Rightarrow> Some (FKey kvs k # r, EColon)
      | (TRBrace, FObj kvs # r) \<Rightarrow> put (PDict kvs) r
      | _ \<Rightarrow> None)"
| "step (st, EValueOrEnd) t =
     (case t of
        TVal v \<Rightarrow> put v st
      | TLBrack \<Rightarrow> Some (FArr [] # st, EValueOrEnd)
      | TLBrace \<Rightarrow> Some (FObj [] # st, EKeyOrEnd)
      | TRBrack \<Rightarrow> (case st of FArr xs # r \<Rightarrow> put (PList (rev xs)) r | _ \<Rightarrow> None)
      | _ \<Rightarrow> None)"
| "step (st, EValue) t =
     (case t of
        TVal v \<Rightarrow> put v st
      | TLBrack \<Rightarrow> Some (FArr [] # st, EValueOrEnd)
      | TLBrace \<Rightarrow> Some (FObj [] # st, EKeyOrEnd)
      | _ \<Rightarrow> None)"

fun run_tokens :: "frame list \<times> expect \<Rightarrow> token list \<Rightarrow> pyobj option" where
  "run_tokens (st, e) [] = (case e of EDone v \<Rightarrow> Some v | _ \<Rightarrow> None)"
| "run_tokens (st, e) (t # ts) =
     (case step (st, e) t of None \<Rightarrow> None | Some c \<Rightarrow> run_tokens c ts)"

definition parse_tokens :: "token list \<Rightarrow> pyobj option" where
  "parse_tokens ts = run_tokens ([], EValue) ts"

definition json_loads :: "string \<Rightarrow> pyobj option" where
  "json_loads s = (case tokenize s of None \<Rightarrow> None | Some ts \<Rightarrow> parse_tokens ts)"

section \<open>\<open>base64.b64encode\<close>\<close>

type_synonym bytes = "char list"

definition b64_alphabet :: string where
  "b64_alphabet = ''ABCDEFGHIJKLMNOPQRSTUVWXYZabcdefghijklmnopqrstuvwxyz0123456789+/''"

definition b64_char :: "nat \<Rightarrow> char" where
  "b64_char n = b64_alphabet ! (n mod 64)"

fun b64encode :: "bytes \<Rightarrow> string" where
  "b64encode [] = []"
| "b64encode [a] =
     (let n = (of_char a :: nat) * 16
      in [b64_char (n div 64), b64_char n, CHR ''='', CHR ''=''])"
| "b64encode [a, b] =
     (let n = ((of_char a :: nat) * 256 + of_char b) * 4
      in [b64_char (n div 4096), b64_char (n div 64), b64_char n, CHR ''=''])"
| "b64encode (a # b # c # r) =
     (let n = ((of_char a :: nat) * 256 + of_char b) * 256 + of_char c
      in [b64_char (n div 262144), b64_char (n div 4096), b64_char (n div 64), b64_char n]
         @ b64encode r)"

declare b64encode.simps [simp del]

section \<open>Exceptions and the environment\<close>

text \<open>
  An exception is either the framework's \<open>HTTPException\<close> (status code and detail) or
  any other exception, given by its class and the text \<open>str(e)\<close>.
\<close>

datatype exc_class =
    RuntimeError | AttributeError | TypeError | KeyError | IndexError | ValueError
  | JSONDecodeError | ValidationError | HTTPStatusError | TransportError | DriverError

datatype exc = HTTPException nat string | Raised exc_class string

fun exc_str :: "exc \<Rightarrow> string" where
  "exc_str (Raised c m) = m"
| "exc_str (HTTPException c d) = str_nat c @ '': '' @ d"

text \<open>What the remote endpoint answers to the one POST: the client raises (connection
  failure, timeout) with some text, or a response arrives. \<open>status_error\<close> is the text of
  the \<open>HTTPStatusError\<close> that \<open>raise_for_status\<close> raises for this response when its status
  is not a success.\<close>

record http_response =
  status_code :: nat
  body_text :: string
  status_error :: string

datatype post_outcome = PostFailed string | Response http_response

text \<open>
  Everything the program takes from outside itself: the configuration, the values drawn
  at run time, the answers of the remote endpoint and of the database driver, and the
  parts of the libraries that are not modelled here:
  \<^item> \<open>exc_text c v\<close>: the text of a library exception of class \<open>c\<close> raised on the value \<open>v\<close>;
  \<^item> \<open>json_dumps\<close>: \<open>json.dumps\<close>;
  \<^item> \<open>float_is_zero\<close>: whether a float is \<open>0.0\<close>;
  \<^item> \<open>coerce_int\<close>, \<open>coerce_float\<close>, \<open>coerce_bool\<close>, \<open>coerce_datetime\<close>: the conversions of
    the validation library's lax mode for an input that is not already of the field's
    type (for instance a numeric string for an \<open>int\<close> field); \<open>None\<close> is a validation
    error;
  \<^item> \<open>fromisoformat\<close>: \<open>datetime.fromisoformat\<close>, \<open>None\<close> when it raises \<open>ValueError\<close>;
  \<^item> \<open>insert_error\<close>: the text of the exception \<open>insert_one\<close> raises for a document,
    \<open>None\<close> when the insert succeeds; \<open>find_error\<close> likewise for the query of the
    history endpoint;
  \<^item> \<open>bson_ge\<close>: the database's sort order on the values of a field that are not both
    strings or dates (\<open>None\<close> for a document without the field);
  \<^item> \<open>listing_uuid4 i\<close>, \<open>listing_utcnow i\<close>: the values the default factories draw
    while the \<open>i\<close>-th document of a listing is validated.
\<close>

record env =
  GOOGLE_API_KEY :: "string option"
  uuid4 :: string
  utcnow :: datetime
  post :: "string \<Rightarrow> pyobj \<Rightarrow> post_outcome"
  exc_text :: "exc_class \<Rightarrow> pyobj \<Rightarrow> string"
  json_dumps :: "pyobj \<Rightarrow> string"
  float_is_zero :: "pyfloat \<Rightarrow> bool"
  coerce_int :: "pyobj \<Rightarrow> int option"
  coerce_float :: "pyobj \<Rightarrow> pyfloat option"
  coerce_bool :: "pyobj \<Rightarrow> bool option"
  coerce_datetime :: "pyobj \<Rightarrow> datetime option"
  fromisoformat :: "string \<Rightarrow> datetime option"
  insert_error :: "pydict \<Rightarrow> string option"
  find_error :: "string option"
  bson_ge :: "pyobj option \<Rightarrow> pyobj option \<Rightarrow> bool"
  listing_uuid4 :: "nat \<Rightarrow> string"
  listing_utcnow :: "nat \<Rightarrow> datetime"

section \<open>Dynamic operations on values\<close>

definition type_name :: "pyobj \<Rightarrow> string" where
  "type_name v =
     (case v of
        PNone \<Rightarrow> ''NoneType'' | PBool b \<Rightarrow> ''bool'' | PInt n \<Rightarrow> ''int''
      | PFloat f \<Rightarrow> ''float'' | PStr s \<Rightarrow> ''str'' | PList xs \<Rightarrow> ''list''
      | PDict d \<Rightarrow> ''dict'' | PDatetime d \<Rightarrow> ''datetime.datetime'')"

definition quote :: "string \<Rightarrow> string" where
  "quote s = [CHR 0x27] @ s @ [CHR 0x27]"

text \<open>\<open>obj.get(key, default)\<close>: only a \<open>dict\<close> has the method.\<close>

definition py_get :: "pyobj \<Rightarrow> string \<Rightarrow> pyobj \<Rightarrow> exc + pyobj" where
  "py_get obj key dflt =
     (case obj of
        PDict d \<Rightarrow> Inr (case dict_get d key of Some v \<Rightarrow> v | None \<Rightarrow> dflt)
      | _ \<Rightarrow> Inl (Raised AttributeError
                 (quote (type_name obj) @ '' object has no attribute '' @ quote ''get'')))"

text \<open>The truth value of an object.\<close>

definition truthy :: "env \<Rightarrow> pyobj \<Rightarrow> bool" where
  "truthy E v =
     (case v of
        PNone \<Rightarrow> False | PBool b \<Rightarrow> b | PInt n \<Rightarrow> n \<noteq> 0
      | PFloat f \<Rightarrow> \<not> float_is_zero E f | PStr s \<Rightarrow> s \<noteq> [] | PList xs \<Rightarrow> xs \<noteq> []
      | PDict d \<Rightarrow> d \<noteq> [] | PDatetime d \<Rightarrow> True)"

text \<open>The code points of a string, each as a string: a code point starts at every byte
  that is not a continuation byte (\<open>0x80..0xBF\<close>).\<close>

definition is_cont :: "char \<Rightarrow> bool" where
  "is_cont c \<longleftrightarrow> (0x80::nat) \<le> of_char c \<and> (of_char c :: nat) < 0xC0"

function utf8_chars :: "string \<Rightarrow> string list" where
  "utf8_chars [] = []"
| "utf8_chars (c # s) = (c # takeWhile is_cont s) # utf8_chars (dropWhile is_cont s)"
  by pat_completeness auto
termination
  by (relation "measure length") (auto intro: le_imp_less_Suc length_dropWhile_le)

text \<open>\<open>obj[0]\<close>.\<close>

definition py_item0 :: "pyobj \<Rightarrow> exc + pyobj" where
  "py_item0 obj =
     (case obj of
        PList xs \<Rightarrow>
          (case xs of [] \<Rightarrow> Inl (Raised IndexError ''list index out of range'')
                    | x # _ \<Rightarrow> Inr x)
      | PStr s \<Rightarrow>
          (if s = [] then Inl (Raised IndexError ''string index out of range'')
           else Inr (PStr (hd (utf8_chars s))))
      | PDict d \<Rightarrow> Inl (Raised KeyError ''0'')
      | _ \<Rightarrow> Inl (Raised TypeError (quote (type_name obj) @ '' object is not subscriptable'')))"

text \<open>The elements a \<open>for\<close> loop draws from an object: the elements of a list, the keys
  of a dict, the characters of a string.\<close>

definition py_iter :: "pyobj \<Rightarrow> exc + pyobj list" where
  "py_iter obj =
     (case obj of
        PList xs \<Rightarrow> Inr xs
      | PDict d \<Rightarrow> Inr (map (\<lambda>(k, v). PStr k) d)
      | PStr s \<Rightarrow> Inr (map PStr (utf8_chars s))
      | _ \<Rightarrow> Inl (Raised TypeError (quote (type_name obj) @ '' object is not iterable'')))"

section \<open>The model client\<close>

record ImageContent =
  img_base64 :: string
  mime_type :: string

record UserMessage =
  msg_text :: string
  file_contents :: "ImageContent list"

record LlmChat =
  api_key :: "string option"
  system_message :: string
  model :: string

text \<open>\<open>LlmChat.__init__\<close> takes its key from the global \<open>GOOGLE_API_KEY\<close>, whatever key
  it is given, and drops the session id.\<close>

definition LlmChat_init :: "env \<Rightarrow> string option \<Rightarrow> string option \<Rightarrow> string option \<Rightarrow> LlmChat" where
  "LlmChat_init E key session_id sys_msg =
     \<lparr>api_key = GOOGLE_API_KEY E,
      system_message = (case sys_msg of None \<Rightarrow> [] | Some m \<Rightarrow> m),
      model = ''gemini-2.0-flash''\<rparr>"

definition with_model :: "LlmChat \<Rightarrow> string list \<Rightarrow> (string \<times> string) list \<Rightarrow> LlmChat" where
  "with_model chat args kwargs =
     (if length args = 2 \<and> args ! 1 \<noteq> [] then chat\<lparr>model := args ! 1\<rparr>
      else (case dict_get kwargs ''model'' of
              Some m \<Rightarrow> if m \<noteq> [] then chat\<lparr>model := m\<rparr> else chat
            | None \<Rightarrow> chat))"

definition inline_part :: "ImageContent \<Rightarrow> pyobj" where
  "inline_part img =
     PDict [(''inlineData'',
             PDict [(''mimeType'', PStr (mime_type img)),
                    (''data'', PStr (img_base64 img))])]"

definition build_payload :: "LlmChat \<Rightarrow> UserMessage \<Rightarrow> pyobj" where
  "build_payload chat user_message =
     (let prompt_text = strip (system_message chat);
          prompt_text = (if prompt_text \<noteq> [] then prompt_text @ ''\<newline>\<newline>'' else prompt_text);
          prompt_text = prompt_text @ msg_text user_message;
          parts = PDict [(''text'', PStr prompt_text)] # map inline_part (file_contents user_message)
      in PDict [(''contents'', PList [PDict [(''role'', PStr ''user''), (''parts'', PList parts)]]),
                (''generationConfig'', PDict [(''maxOutputTokens'', PInt 512)])])"

definition build_url :: "LlmChat \<Rightarrow> string \<Rightarrow> string" where
  "build_url chat key =
     (let m = (if model chat \<noteq> [] then model chat else ''gemini-2.0-flash'')
      in ''https://generativelanguage.googleapis.com/v1/models/'' @ m @
         '':generateContent?key='' @ key)"

definition leaked_marker :: string where
  "leaked_marker = ''reported as leaked''"

definition is_success :: "nat \<Rightarrow> bool" where
  "is_success code \<longleftrightarrow> 200 \<le> code \<and> code \<le> 299"

text \<open>The text of the first candidate of the reply envelope, or the envelope itself.\<close>

definition part_texts :: "pyobj list \<Rightarrow> pyobj list" where
  "part_texts ps =
     concat (map (\<lambda>p. case p of
                         PDict d \<Rightarrow> (case dict_get d ''text'' of Some t \<Rightarrow> [t] | None \<Rightarrow> [])
                       | _ \<Rightarrow> []) ps)"

fun join_lines :: "nat \<Rightarrow> pyobj list \<Rightarrow> exc + string" where
  "join_lines i [] = Inr []"
| "join_lines i (t # ts) =
     (case t of
        PStr s \<Rightarrow>
          (case join_lines (Suc i) ts of
             Inl e \<Rightarrow> Inl e
           | Inr r \<Rightarrow> Inr (if ts = [] then s else s @ ''\<newline>'' @ r))
      | _ \<Rightarrow> Inl (Raised TypeError (''sequence item '' @ str_nat i @
                 '': expected str instance, '' @ type_name t @ '' found'')))"

definition candidate_texts :: "pyobj \<Rightarrow> exc + pyobj list" where
  "candidate_texts cands =
     (case py_item0 cands of
        Inl e \<Rightarrow> Inl e
      | Inr cand \<Rightarrow>
          (case py_get cand ''content'' (PDict []) of
             Inl e \<Rightarrow> Inl e
           | Inr content \<Rightarrow>
               (case py_get content ''parts'' (PList []) of
                  Inl e \<Rightarrow> Inl e
                | Inr parts \<Rightarrow>
                    (case py_iter parts of
                       Inl e \<Rightarrow> Inl e
                     | Inr ps \<Rightarrow> Inr (part_texts ps)))))"

definition extract_reply :: "env \<Rightarrow> pyobj \<Rightarrow> exc + string" where
  "extract_reply E data =
     (case (case data of PDict d \<Rightarrow> dict_get d ''candidates'' | _ \<Rightarrow> None) of
        None \<Rightarrow> Inr (json_dumps E data)
      | Some cands \<Rightarrow>
          if truthy E cands then
            (case candidate_texts cands of
               Inl e \<Rightarrow> Inl e
             | Inr texts \<Rightarrow>
                 if texts \<noteq> [] then join_lines 0 texts else Inr (json_dumps E data))
          else Inr (json_dumps E data))"

definition send_message :: "env \<Rightarrow> LlmChat \<Rightarrow> UserMessage \<Rightarrow> exc + string" where
  "send_message E chat user_message =
     (case api_key chat of
        None \<Rightarrow> Inl (Raised RuntimeError ''No API key provided for Gemini.'')
      | Some key \<Rightarrow>
          if key = [] then Inl (Raised RuntimeError ''No API key provided for Gemini.'')
          else
            (case post E (build_url chat key) (build_payload chat user_message) of
               PostFailed m \<Rightarrow> Inl (Raised TransportError m)
             | Response resp \<Rightarrow>
                 if status_code resp = 403 \<and> contains leaked_marker (body_text resp) then
                   Inl (Raised RuntimeError
                     (''Your Gemini API key was reported as leaked and is blocked. '' @
                      ''Please generate a new key and update GOOGLE_API_KEY.''))
                 else if \<not> is_success (status_code resp) then
                   Inl (Raised HTTPStatusError (status_error resp))
                 else
                   (case json_loads (body_text resp) of
                      None \<Rightarrow> Inl (Raised JSONDecodeError
                                 (exc_text E JSONDecodeError (PStr (body_text resp))))
                    | Some data \<Rightarrow> extract_reply E data)))"

definition system_prompt :: string where
  \<open>system_prompt =
     ''You are an expert industrial defect detection AI. Analyze images for manufacturing and industrial defects like:\<newline>'' @
     ''        - Cold joints in welds\<newline>'' @
     ''        - Foreign materials/contaminants\<newline>'' @
     ''        - Cracks and fractures  \<newline>'' @
     ''        - Corrosion and rust\<newline>'' @
     ''        - Surface imperfections\<newline>'' @
     ''        - Misaligned components\<newline>'' @
     ''        - Dimensional issues\<newline>'' @
     ''        \<newline>'' @
     ''        Return ONLY a valid JSON response with this exact structure:\<newline>'' @
     ''        {\<newline>'' @
     ''            "defects_found": [\<newline>'' @
     ''                {\<newline>'' @
     ''                    "defect_type": "Cold Joint",\<newline>'' @
     ''                    "confidence": 92,\<newline>'' @
     ''                    "severity": "High",\<newline>'' @
     ''                    "description": "Incomplete weld penetration detected in joint area"\<newline>'' @
     ''                },\<newline>'' @
     ''                {\<newline>'' @
     ''                    "defect_type": "Foreign Material", \<newline>'' @
     ''                    "confidence": 86,\<newline>'' @
     ''                    "severity": "Medium",\<newline>'' @
     ''                    "description": "Metallic debris embedded in surface"\<newline>'' @
     ''                }\<newline>'' @
     ''            ],\<newline>'' @
     ''            "total_defects": 2\<newline>'' @
     ''        }\<newline>'' @
     ''        \<newline>'' @
     ''        If no defects are found, return:\<newline>'' @
     ''        {\<newline>'' @
     ''            "defects_found": [],\<newline>'' @
     ''            "total_defects": 0\<newline>'' @
     ''        }''\<close>

definition create_gemini_chat :: "env \<Rightarrow> exc + LlmChat" where
  "create_gemini_chat E =
     (if GOOGLE_API_KEY E = None \<or> GOOGLE_API_KEY E = Some [] then
        Inl (Raised RuntimeError
          (''GOOGLE_API_KEY is not set in the environment. '' @
           ''Please set a valid Gemini API key.''))
      else
        Inr (with_model
               (LlmChat_init E (GOOGLE_API_KEY E) (Some (''defect_analysis_'' @ uuid4 E))
                  (Some system_prompt))
               [''gemini'', ''gemini-2.0-flash''] []))"

section \<open>The data model\<close>

record DefectResult =
  defect_type :: string
  confidence :: pyfloat
  severity :: string
  description :: string

record AnalysisResult =
  id' :: string
  filename :: string
  upload_time :: datetime
  total_defects :: int
  defects_found :: "DefectResult list"
  analysis_complete :: bool
  image_base64 :: "string option"

record AnalysisResponse =
  success :: bool
  message :: string
  analysis :: "AnalysisResult option"

text \<open>Field validation. A value of the field's own type is taken as it is, an \<open>int\<close>
  that a float holds exactly becomes that float, and every other input goes through the
  lax-mode conversion of the environment.\<close>

definition validate_str :: "pyobj \<Rightarrow> string option" where
  "validate_str v = (case v of PStr s \<Rightarrow> Some s | _ \<Rightarrow> None)"

definition validate_float :: "env \<Rightarrow> pyobj \<Rightarrow> pyfloat option" where
  "validate_float E v =
     (case v of
        PFloat f \<Rightarrow> Some f
      | PInt n \<Rightarrow> if \<bar>n\<bar> \<le> 2 ^ 53 then Some (FloatOfInt n) else coerce_float E v
      | _ \<Rightarrow> coerce_float E v)"

definition validate_int :: "env \<Rightarrow> pyobj \<Rightarrow> int option" where
  "validate_int E v = (case v of PInt n \<Rightarrow> Some n | _ \<Rightarrow> coerce_int E v)"

definition validate_bool :: "env \<Rightarrow> pyobj \<Rightarrow> bool option" where
  "validate_bool E v = (case v of PBool b \<Rightarrow> Some b | _ \<Rightarrow> coerce_bool E v)"

definition validate_datetime :: "env \<Rightarrow> pyobj \<Rightarrow> datetime option" where
  "validate_datetime E v = (case v of PDatetime d \<Rightarrow> Some d | _ \<Rightarrow> coerce_datetime E v)"

text \<open>The fields of a \<open>DefectResult\<close> read from a dict: all four are required, other
  keys are ignored.\<close>

definition defect_fields :: "env \<Rightarrow> pydict \<Rightarrow> DefectResult option" where
  "defect_fields E d =
     (case (Option.bind (dict_get d ''defect_type'') validate_str,
            Option.bind (dict_get d ''confidence'') (validate_float E),
            Option.bind (dict_get d ''severity'') validate_str,
            Option.bind (dict_get d ''description'') validate_str) of
        (Some t, Some c, Some s, Some ds) \<Rightarrow>
          Some \<lparr>defect_type = t, confidence = c, severity = s, description = ds\<rparr>
      | _ \<Rightarrow> None)"

text \<open>\<open>DefectResult(**defect)\<close>: the argument must be a mapping.\<close>

definition DefectResult_new :: "env \<Rightarrow> pyobj \<Rightarrow> exc + DefectResult" where
  "DefectResult_new E defect =
     (case defect of
        PDict d \<Rightarrow>
          (case defect_fields E d of
             Some r \<Rightarrow> Inr r
           | None \<Rightarrow> Inl (Raised ValidationError (exc_text E ValidationError defect)))
      | _ \<Rightarrow> Inl (Raised TypeError (exc_text E TypeError defect)))"

text \<open>The list comprehension over the defects: it stops at the first exception.\<close>

fun defects_from :: "env \<Rightarrow> pyobj list \<Rightarrow> exc + DefectResult list" where
  "defects_from E [] = Inr []"
| "defects_from E (x # xs) =
     (case DefectResult_new E x of
        Inl e \<Rightarrow> Inl e
      | Inr d \<Rightarrow> (case defects_from E xs of Inl e \<Rightarrow> Inl e | Inr ds \<Rightarrow> Inr (d # ds)))"

text \<open>\<open>AnalysisResult(filename=..., total_defects=..., defects_found=..., image_base64=...)\<close>
  as the analyze endpoint calls it: the id and the upload time take their default
  factories, \<open>analysis_complete\<close> its default.\<close>

definition AnalysisResult_new ::
  "env \<Rightarrow> string \<Rightarrow> pyobj \<Rightarrow> DefectResult list \<Rightarrow> string \<Rightarrow> exc + AnalysisResult" where
  "AnalysisResult_new E fname cnt defects b64 =
     (case validate_int E cnt of
        None \<Rightarrow> Inl (Raised ValidationError (exc_text E ValidationError cnt))
      | Some n \<Rightarrow>
          Inr \<lparr>id' = uuid4 E, filename = fname, upload_time = utcnow E, total_defects = n,
               defects_found = defects, analysis_complete = True, image_base64 = Some b64\<rparr>)"

text \<open>\<open>model_dump()\<close>.\<close>

definition defect_dump :: "DefectResult \<Rightarrow> pyobj" where
  "defect_dump d =
     PDict [(''defect_type'', PStr (defect_type d)),
            (''confidence'', PFloat (confidence d)),
            (''severity'', PStr (severity d)),
            (''description'', PStr (description d))]"

definition model_dump :: "AnalysisResult \<Rightarrow> pydict" where
  "model_dump a =
     [(''id'', PStr (id' a)),
      (''filename'', PStr (filename a)),
      (''upload_time'', PDatetime (upload_time a)),
      (''total_defects'', PInt (total_defects a)),
      (''defects_found'', PList (map defect_dump (defects_found a))),
      (''analysis_complete'', PBool (analysis_complete a)),
      (''image_base64'', (case image_base64 a of None \<Rightarrow> PNone | Some b \<Rightarrow> PStr b))]"

section \<open>The database\<close>

text \<open>The collection \<open>analyses\<close> is the list of its documents, oldest insert first. (The
  driver adds a key \<open>_id\<close> of its own to every document; nothing in the program reads
  it, and it is left out.)\<close>

type_synonym db = "pydict list"

definition insert_one :: "env \<Rightarrow> pydict \<Rightarrow> db \<Rightarrow> (exc + unit) \<times> db" where
  "insert_one E doc coll =
     (case insert_error E doc of
        Some m \<Rightarrow> (Inl (Raised DriverError m), coll)
      | None \<Rightarrow> (Inr (), coll @ [doc]))"

section \<open>\<open>POST /api/analyze\<close>\<close>

record UploadFile =
  file_name :: string
  content_type :: "string option"
  file_bytes :: bytes

definition fence_open :: string where
  "fence_open = ''```json''"

definition fence_close :: string where
  "fence_close = ''```''"

definition sentinel :: pyobj where
  "sentinel =
     PDict [(''defects_found'',
             PList [PDict [(''defect_type'', PStr ''Analysis Error''),
                           (''confidence'', PInt 50),
                           (''severity'', PStr ''Unknown''),
                           (''description'', PStr ''Could not parse AI response properly'')]]),
            (''total_defects'', PInt 1)]"

text \<open>The text handed to \<open>json.loads\<close>: the reply without surrounding whitespace and
  without the fence markers.\<close>

definition strip_fences :: "string \<Rightarrow> string" where
  "strip_fences response =
     (let response_text = strip response;
          response_text = (if prefix fence_open response_text
                           then drop 7 response_text else response_text);
          response_text = (if suffix fence_close response_text
                           then take (length response_text - 3) response_text
                           else response_text)
      in response_text)"

text \<open>The inner \<open>try\<close>: only \<open>json.JSONDecodeError\<close> is caught.\<close>

definition parse_response :: "string \<Rightarrow> pyobj" where
  "parse_response response =
     (case json_loads (strip_fences response) of
        Some analysis_data \<Rightarrow> analysis_data
      | None \<Rightarrow> sentinel)"

definition leaked_detail :: string where
  "leaked_detail =
     ''LLM provider (Gemini) blocked the API key because it was '' @
     ''reported as leaked. Please generate a new API key and '' @
     ''update GOOGLE_API_KEY in your environment.''"

text \<open>From the creation of the client to the reply of the model.\<close>

definition call_model :: "env \<Rightarrow> string \<Rightarrow> string \<Rightarrow> exc + string" where
  "call_model E ctype base64_image =
     (case create_gemini_chat E of
        Inl e \<Rightarrow> Inl (HTTPException 500 (exc_str e))
      | Inr chat \<Rightarrow>
          (let image_content = \<lparr>img_base64 = base64_image, mime_type = ctype\<rparr>;
               user_message =
                 \<lparr>msg_text = ''Analyze this manufacturing/industrial image for defects. Return JSON response only.'',
                  file_contents = [image_content]\<rparr>
           in (case send_message E chat user_message of
                 Inr response \<Rightarrow> Inr response
               | Inl e \<Rightarrow>
                   (let msg = exc_str e
                    in if contains leaked_marker msg
                       then Inl (HTTPException 500 leaked_detail)
                       else Inl (HTTPException 500
                                   (''Analysis failed while calling LLM: '' @ msg))))))"

text \<open>From the parsed reply to the \<open>AnalysisResult\<close>.\<close>

definition build_analysis :: "env \<Rightarrow> string \<Rightarrow> string \<Rightarrow> pyobj \<Rightarrow> exc + AnalysisResult" where
  "build_analysis E fname base64_image analysis_data =
     (case py_get analysis_data ''defects_found'' (PList []) of
        Inl e \<Rightarrow> Inl e
      | Inr found \<Rightarrow>
          (case py_iter found of
             Inl e \<Rightarrow> Inl e
           | Inr items \<Rightarrow>
               (case defects_from E items of
                  Inl e \<Rightarrow> Inl e
                | Inr defects \<Rightarrow>
                    (case py_get analysis_data ''total_defects'' (PInt (int (length defects))) of
                       Inl e \<Rightarrow> Inl e
                     | Inr cnt \<Rightarrow> AnalysisResult_new E fname cnt defects base64_image))))"

definition analysis_document :: "AnalysisResult \<Rightarrow> pydict" where
  "analysis_document a =
     dict_set (model_dump a) ''upload_time'' (PStr (isoformat (upload_time a)))"

text \<open>The response of a successful request.\<close>

definition success_response :: "AnalysisResult \<Rightarrow> AnalysisResponse" where
  "success_response a =
     \<lparr>success = True,
      message = ''Analysis complete. Found '' @ str_int (total_defects a) @ '' defects.'',
      analysis = Some a\<rparr>"

text \<open>The body of the outer \<open>try\<close>.\<close>

definition analyze_body :: "env \<Rightarrow> UploadFile \<Rightarrow> db \<Rightarrow> (exc + AnalysisResponse) \<times> db" where
  "analyze_body E file coll =
     (case content_type file of
        None \<Rightarrow> (Inl (Raised AttributeError
                   (quote ''NoneType'' @ '' object has no attribute '' @ quote ''startswith'')), coll)
      | Some ctype \<Rightarrow>
          if \<not> prefix ''image/'' ctype
          then (Inl (HTTPException 400 ''Only image files are supported''), coll)
          else
            (let base64_image = b64encode (file_bytes file)
             in (case call_model E ctype base64_image of
                   Inl e \<Rightarrow> (Inl e, coll)
                 | Inr response \<Rightarrow>
                     (case build_analysis E (file_name file) base64_image
                             (parse_response response) of
                        Inl e \<Rightarrow> (Inl e, coll)
                      | Inr a \<Rightarrow>
                          (case insert_one E (analysis_document a) coll of
                             (Inl e, coll') \<Rightarrow> (Inl e, coll')
                           | (Inr u, coll') \<Rightarrow> (Inr (success_response a), coll'))))))"

text \<open>The endpoint: an \<open>HTTPException\<close> passes, every other exception becomes a 500. The
  result is the exception the framework answers with, or the response body.\<close>

definition analyze_defects :: "env \<Rightarrow> UploadFile \<Rightarrow> db \<Rightarrow> (exc + AnalysisResponse) \<times> db" where
  "analyze_defects E file coll =
     (case analyze_body E file coll of
        (Inl (HTTPException c d), coll') \<Rightarrow> (Inl (HTTPException c d), coll')
      | (Inl e, coll') \<Rightarrow> (Inl (HTTPException 500 (''Analysis failed: '' @ exc_str e)), coll')
      | (Inr r, coll') \<Rightarrow> (Inr r, coll'))"

text \<open>The status of the HTTP answer: the code of the exception, or 200.\<close>

definition http_status :: "exc + 'a \<Rightarrow> nat" where
  "http_status r = (case r of Inl (HTTPException c d) \<Rightarrow> c | Inl _ \<Rightarrow> 500 | Inr _ \<Rightarrow> 200)"

definition response_analysis :: "exc + AnalysisResponse \<Rightarrow> AnalysisResult option" where
  "response_analysis r = (case r of Inr resp \<Rightarrow> analysis resp | Inl e \<Rightarrow> None)"

text \<open>\<open>model_replies E file reply\<close>: the upload passes the content-type gate and the call
  of the model returns the text \<open>reply\<close>, so that the request reaches the parsing of the
  reply.\<close>

definition model_replies :: "env \<Rightarrow> UploadFile \<Rightarrow> string \<Rightarrow> bool" where
  "model_replies E file reply =
     (case content_type file of
        None \<Rightarrow> False
      | Some ctype \<Rightarrow>
          prefix ''image/'' ctype
          \<and> call_model E ctype (b64encode (file_bytes file)) = Inr reply)"

section \<open>\<open>GET /api/history\<close>\<close>

text \<open>
  The query \<open>find().sort("upload_time", -1).limit(limit)\<close> and \<open>to_list(length=limit)\<close>.
  The database compares two strings byte by byte and two dates by their time, and it
  puts every date above every string; for values of other kinds the order is the
  environment's. \<open>sort_desc\<close> is an insertion sort: among documents that compare equal
  the database promises no order, and the model keeps the order of insertion.
\<close>

fun lex_le :: "nat list \<Rightarrow> nat list \<Rightarrow> bool" where
  "lex_le [] ys = True"
| "lex_le (x # xs) [] = False"
| "lex_le (x # xs) (y # ys) = (x < y \<or> (x = y \<and> lex_le xs ys))"

definition str_le :: "string \<Rightarrow> string \<Rightarrow> bool" where
  "str_le s t = lex_le (map of_char s) (map of_char t)"

definition dt_fields :: "datetime \<Rightarrow> nat list" where
  "dt_fields d = [year d, month d, day d, hour d, minute d, second d, microsecond d]"

definition dt_le :: "datetime \<Rightarrow> datetime \<Rightarrow> bool" where
  "dt_le a b = lex_le (dt_fields a) (dt_fields b)"

definition sort_key :: "pydict \<Rightarrow> pyobj option" where
  "sort_key doc = dict_get doc ''upload_time''"

text \<open>\<open>mongo_ge E a b\<close>: the key \<open>a\<close> sorts at or before the key \<open>b\<close> in descending
  order.\<close>

definition mongo_ge :: "env \<Rightarrow> pyobj option \<Rightarrow> pyobj option \<Rightarrow> bool" where
  "mongo_ge E a b =
     (case (a, b) of
        (Some (PStr s), Some (PStr t)) \<Rightarrow> str_le t s
      | (Some (PDatetime d), Some (PDatetime e)) \<Rightarrow> dt_le e d
      | (Some (PDatetime d), Some (PStr t)) \<Rightarrow> True
      | (Some (PStr s), Some (PDatetime e)) \<Rightarrow> False
      | _ \<Rightarrow> bson_ge E a b)"

fun insert_desc :: "env \<Rightarrow> pydict \<Rightarrow> pydict list \<Rightarrow> pydict list" where
  "insert_desc E x [] = [x]"
| "insert_desc E x (y # ys) =
     (if mongo_ge E (sort_key x) (sort_key y) then x # y # ys else y # insert_desc E x ys)"

definition sort_desc :: "env \<Rightarrow> pydict list \<Rightarrow> pydict list" where
  "sort_desc E docs = foldr (insert_desc E) docs []"

text \<open>A negative length is refused by \<open>to_list\<close> before the database is asked.\<close>

definition find_recent :: "env \<Rightarrow> db \<Rightarrow> int \<Rightarrow> exc + pydict list" where
  "find_recent E coll limit =
     (if limit < 0 then Inl (Raised ValueError (exc_text E ValueError (PInt limit)))
      else (case find_error E of
              Some m \<Rightarrow> Inl (Raised DriverError m)
            | None \<Rightarrow> Inr (take (nat limit) (sort_desc E coll))))"

text \<open>The normalisation of a stored time: a string goes through \<open>fromisoformat\<close>.\<close>

definition normalise_time :: "env \<Rightarrow> pydict \<Rightarrow> exc + pydict" where
  "normalise_time E doc =
     (case dict_get doc ''upload_time'' of
        Some (PStr s) \<Rightarrow>
          (case fromisoformat E s of
             None \<Rightarrow> Inl (Raised ValueError (exc_text E ValueError (PStr s)))
           | Some d \<Rightarrow> Inr (dict_set doc ''upload_time'' (PDatetime d)))
      | _ \<Rightarrow> Inr doc)"

text \<open>\<open>AnalysisResult(**analysis)\<close> for the \<open>i\<close>-th document of a listing: \<open>id\<close>,
  \<open>upload_time\<close>, \<open>analysis_complete\<close> and \<open>image_base64\<close> have defaults, the other fields
  are required, keys that are no fields are ignored.\<close>

definition defect_of :: "env \<Rightarrow> pyobj \<Rightarrow> DefectResult option" where
  "defect_of E x = (case x of PDict d \<Rightarrow> defect_fields E d | _ \<Rightarrow> None)"

definition result_fields :: "env \<Rightarrow> nat \<Rightarrow> pydict \<Rightarrow> AnalysisResult option" where
  "result_fields E i doc =
     (case ((case dict_get doc ''id'' of None \<Rightarrow> Some (listing_uuid4 E i)
                                        | Some v \<Rightarrow> validate_str v),
            Option.bind (dict_get doc ''filename'') validate_str,
            (case dict_get doc ''upload_time'' of None \<Rightarrow> Some (listing_utcnow E i)
                                                 | Some v \<Rightarrow> validate_datetime E v),
            Option.bind (dict_get doc ''total_defects'') (validate_int E),
            (case dict_get doc ''defects_found'' of
               Some (PList xs) \<Rightarrow> those (map (defect_of E) xs)
             | _ \<Rightarrow> None),
            (case dict_get doc ''analysis_complete'' of None \<Rightarrow> Some True
                                                       | Some v \<Rightarrow> validate_bool E v),
            (case dict_get doc ''image_base64'' of
               None \<Rightarrow> Some None
             | Some PNone \<Rightarrow> Some None
             | Some (PStr b) \<Rightarrow> Some (Some b)
             | Some _ \<Rightarrow> None)) of
        (Some i', Some f, Some u, Some t, Some ds, Some c, Some b) \<Rightarrow>
          Some \<lparr>id' = i', filename = f, upload_time = u, total_defects = t,
                defects_found = ds, analysis_complete = c, image_base64 = b\<rparr>
      | _ \<Rightarrow> None)"

definition AnalysisResult_of :: "env \<Rightarrow> nat \<Rightarrow> pydict \<Rightarrow> exc + AnalysisResult" where
  "AnalysisResult_of E i doc =
     (case result_fields E i doc of
        Some a \<Rightarrow> Inr a
      | None \<Rightarrow> Inl (Raised ValidationError (exc_text E ValidationError (PDict doc))))"

text \<open>The loop over the documents found.\<close>

fun history_records :: "env \<Rightarrow> nat \<Rightarrow> pydict list \<Rightarrow> exc + AnalysisResult list" where
  "history_records E i [] = Inr []"
| "history_records E i (doc # docs) =
     (case normalise_time E doc of
        Inl e \<Rightarrow> Inl e
      | Inr doc' \<Rightarrow>
          (case AnalysisResult_of E i doc' of
             Inl e \<Rightarrow> Inl e
           | Inr a \<Rightarrow>
               (case history_records E (Suc i) docs of
                  Inl e \<Rightarrow> Inl e
                | Inr r \<Rightarrow> Inr (a # r))))"

text \<open>The endpoint; the query parameter \<open>limit\<close> is optional and defaults to 10. Every
  exception becomes a 500.\<close>

definition get_analysis_history :: "env \<Rightarrow> db \<Rightarrow> int option \<Rightarrow> exc + AnalysisResult list" where
  "get_analysis_history E coll query_limit =
     (let limit = (case query_limit of None \<Rightarrow> 10 | Some k \<Rightarrow> k)
      in (case (case find_recent E coll limit of
                  Inl e \<Rightarrow> Inl e
                | Inr analyses \<Rightarrow> history_records E 0 analyses) of
            Inl e \<Rightarrow> Inl (HTTPException 500 (''Failed to fetch history: '' @ exc_str e))
          | Inr result \<Rightarrow> Inr result))"

text \<open>The ranges of the fields of a \<open>datetime\<close> object.\<close>

definition valid_datetime :: "datetime \<Rightarrow> bool" where
  "valid_datetime d \<longleftrightarrow>
     1 \<le> year d \<and> year d \<le> 9999 \<and> 1 \<le> month d \<and> month d \<le> 12 \<and>
     1 \<le> day d \<and> day d \<le> 31 \<and> hour d < 24 \<and> minute d < 60 \<and> second d < 60 \<and>
     microsecond d < 1000000"

text \<open>A string of whitespace only: \<open>strip\<close> leaves nothing of it.\<close>

definition is_blank :: "string \<Rightarrow> bool" where
  "is_blank w \<longleftrightarrow> lstrip w = []"

section \<open>Concrete inputs\<close>

text \<open>A reply envelope of the remote endpoint whose first candidate carries one text
  part, and an environment in which the endpoint answers every POST with a given
  outcome, the database accepts every insert and the lax conversions accept nothing.\<close>

definition json_escape :: "string \<Rightarrow> string" where
  "json_escape s =
     concat (map (\<lambda>c. if c = CHR 0x22 \<or> c = CHR 0x5C then [CHR 0x5C, c] else [c]) s)"

definition envelope :: "string \<Rightarrow> string" where
  \<open>envelope reply =
     ''{"candidates": [{"content": {"parts": [{"text": "'' @ json_escape reply @ ''"}]}}]}''\<close>

definition envelope_data :: "string \<Rightarrow> pyobj" where
  "envelope_data reply =
     PDict [(''candidates'',
             PList [PDict [(''content'',
                            PDict [(''parts'', PList [PDict [(''text'', PStr reply)]])])]])]"

definition demo_now :: datetime where
  "demo_now = \<lparr>year = 2024, month = 5, day = 17, hour = 9, minute = 30, second = 0,
               microsecond = 0\<rparr>"

definition demo_later :: datetime where
  "demo_later = \<lparr>year = 2024, month = 5, day = 17, hour = 9, minute = 30, second = 0,
                 microsecond = 250000\<rparr>"

definition demo_earlier :: datetime where
  "demo_earlier = \<lparr>year = 2023, month = 12, day = 31, hour = 23, minute = 59, second = 59,
                   microsecond = 999999\<rparr>"

text \<open>What \<open>datetime.fromisoformat\<close> gives on three strings.\<close>

definition demo_times :: "(string \<times> datetime) list" where
  "demo_times =
     [(''2024-05-17T09:30:00'', demo_now),
      (''2024-05-17T09:30:00.250000'', demo_later),
      (''2023-12-31T23:59:59.999999'', demo_earlier)]"

definition demo_env :: "post_outcome \<Rightarrow> env" where
  "demo_env outcome =
     \<lparr>GOOGLE_API_KEY = Some ''k'',
      uuid4 = ''6f1c'',
      utcnow = demo_now,
      post = (\<lambda>url payload. outcome),
      exc_text = (\<lambda>c v. ''error''),
      json_dumps = (\<lambda>v. []),
      float_is_zero = (\<lambda>f. False),
      coerce_int = (\<lambda>v. None),
      coerce_float = (\<lambda>v. None),
      coerce_bool = (\<lambda>v. None),
      coerce_datetime = (\<lambda>v. None),
      fromisoformat = map_of demo_times,
      insert_error = (\<lambda>d. None),
      find_error = None,
      bson_ge = (\<lambda>a b. True),
      listing_uuid4 = (\<lambda>i. ''0000''),
      listing_utcnow = (\<lambda>i. demo_now)\<rparr>"

definition replying :: "string \<Rightarrow> env" where
  "replying reply =
     demo_env (Response \<lparr>status_code = 200, body_text = envelope reply, status_error = []\<rparr>)"

definition png :: UploadFile where
  "png = \<lparr>file_name = ''weld.png'', content_type = Some ''image/png'', file_bytes = ''abcd''\<rparr>"

definition textfile :: UploadFile where
  "textfile = \<lparr>file_name = ''notes.txt'', content_type = Some ''text/plain'', file_bytes = ''abcd''\<rparr>"

definition reply_seven :: string where
  \<open>reply_seven = ''{"defects_found": [], "total_defects": 7}''\<close>

text \<open>The result of analysing \<open>png\<close> in the environment above when the model reports no
  defect and the count \<open>n\<close>.\<close>

definition demo_analysis :: "int \<Rightarrow> AnalysisResult" where
  "demo_analysis n =
     \<lparr>id' = ''6f1c'', filename = ''weld.png'', upload_time = demo_now, total_defects = n,
      defects_found = [], analysis_complete = True, image_base64 = Some ''YWJjZA==''\<rparr>"

text \<open>Two answers of the remote endpoint that are not a success: the one it gives for a
  key reported as leaked, and a plain 404.\<close>

definition leaked_response :: http_response where
  \<open>leaked_response =
     \<lparr>status_code = 403,
      body_text = ''{"error": {"code": 403, "message": "Your API key was reported as leaked. Please use another API key.", "status": "PERMISSION_DENIED"}}'',
      status_error = ''Client error 403 Forbidden''\<rparr>\<close>

definition missing_response :: http_response where
  \<open>missing_response =
     \<lparr>status_code = 404,
      body_text = ''{"error": {"code": 404, "message": "model not found", "status": "NOT_FOUND"}}'',
      status_error = ''Client error 404 Not Found''\<rparr>\<close>

text \<open>Three stored results that differ in their upload time, in the order of their
  insertion.\<close>

definition demo_at :: "datetime \<Rightarrow> AnalysisResult" where
  "demo_at t = (demo_analysis 0)\<lparr>upload_time := t\<rparr>"

definition demo_results :: "AnalysisResult list" where
  "demo_results = [demo_at demo_now, demo_at demo_later, demo_at demo_earlier]"

section \<open>The request, step by step\<close>

lemma extract_reply_envelope: "extract_reply E (envelope_data reply) = Inr reply"
  by (simp add: extract_reply_def envelope_data_def dict_get_def truthy_def candidate_texts_def
      py_item0_def py_get_def py_iter_def part_texts_def)

lemma create_gemini_chat_key:
  assumes "GOOGLE_API_KEY E = Some k" and "k \<noteq> []"
  shows "\<exists>chat. create_gemini_chat E = Inr chat \<and> api_key chat = Some k"
  using assms by (simp add: create_gemini_chat_def with_model_def LlmChat_init_def)

lemma call_model_replying:
  assumes "json_loads (envelope reply) = Some (envelope_data reply)"
  shows "call_model (replying reply) ctype b = Inr reply"
proof -
  let ?E = "replying reply"
  have k: "GOOGLE_API_KEY ?E = Some ''k''"
    by (simp add: replying_def demo_env_def)
  obtain chat where chat: "create_gemini_chat ?E = Inr chat" "api_key chat = Some ''k''"
    using create_gemini_chat_key [OF k] by auto
  have p: "post ?E u pl = Response \<lparr>status_code = 200, body_text = envelope reply, status_error = []\<rparr>" for u pl
    by (simp add: replying_def demo_env_def)
  have "send_message ?E chat um = Inr reply" for um
    using chat(2) assms
    by (simp add: send_message_def p is_success_def extract_reply_envelope)
  with chat(1) show ?thesis
    by (simp add: call_model_def)
qed


lemma analyze_defects_ok:
  assumes "content_type file = Some ctype" and "prefix ''image/'' ctype"
    and "call_model E ctype (b64encode (file_bytes file)) = Inr reply"
    and "build_analysis E (file_name file) (b64encode (file_bytes file)) (parse_response reply) = Inr a"
    and "insert_error E (analysis_document a) = None"
  shows "analyze_defects E file coll = (Inr (success_response a), coll @ [analysis_document a])"
  using assms
  by (simp add: analyze_defects_def analyze_body_def insert_one_def)

lemma build_analysis_sentinel:
  "build_analysis E fname b64 sentinel =
     Inr \<lparr>id' = uuid4 E, filename = fname, upload_time = utcnow E, total_defects = 1,
          defects_found =
            [\<lparr>defect_type = ''Analysis Error'', confidence = FloatOfInt 50,
              severity = ''Unknown'',
              description = ''Could not parse AI response properly''\<rparr>],
          analysis_complete = True, image_base64 = Some b64\<rparr>"
  by (simp add: build_analysis_def sentinel_def py_get_def dict_get_def py_iter_def
      DefectResult_new_def defect_fields_def validate_str_def validate_float_def
      AnalysisResult_new_def validate_int_def)


lemma build_analysis_Inr:
  assumes "build_analysis E fname b64 data = Inr a"
  shows "\<exists>d items. data = PDict d
           \<and> py_iter (case dict_get d ''defects_found'' of Some v \<Rightarrow> v | None \<Rightarrow> PList []) = Inr items
           \<and> defects_from E items = Inr (defects_found a)
           \<and> validate_int E (case dict_get d ''total_defects'' of
                                Some v \<Rightarrow> v | None \<Rightarrow> PInt (int (length (defects_found a))))
               = Some (total_defects a)
           \<and> id' a = uuid4 E \<and> filename a = fname \<and> upload_time a = utcnow E
           \<and> analysis_complete a \<and> image_base64 a = Some b64"
  using assms
  by (auto simp: build_analysis_def py_get_def AnalysisResult_new_def
      split: sum.splits pyobj.splits option.splits)

lemma analyze_body_Inr:
  assumes "analyze_body E file coll = (Inr resp, coll')"
  shows "\<exists>ctype reply a. content_type file = Some ctype \<and> prefix ''image/'' ctype
           \<and> call_model E ctype (b64encode (file_bytes file)) = Inr reply
           \<and> build_analysis E (file_name file) (b64encode (file_bytes file))
                (parse_response reply) = Inr a
           \<and> insert_error E (analysis_document a) = None
           \<and> resp = success_response a \<and> coll' = coll @ [analysis_document a]"
  using assms
  by (auto simp: analyze_body_def insert_one_def Let_def
      split: option.splits if_splits sum.splits prod.splits)

lemma analyze_defects_Inr:
  assumes "analyze_defects E file coll = (Inr resp, coll')"
  shows "\<exists>ctype reply a. content_type file = Some ctype \<and> prefix ''image/'' ctype
           \<and> call_model E ctype (b64encode (file_bytes file)) = Inr reply
           \<and> build_analysis E (file_name file) (b64encode (file_bytes file))
                (parse_response reply) = Inr a
           \<and> insert_error E (analysis_document a) = None
           \<and> resp = success_response a \<and> coll' = coll @ [analysis_document a]"
proof -
  from assms have "analyze_body E file coll = (Inr resp, coll')"
    by (auto simp: analyze_defects_def split: prod.splits sum.splits exc.splits)
  then show ?thesis by (rule analyze_body_Inr)
qed



section \<open>The content-type gate\<close>

lemma analyze_body_not_image:
  assumes "content_type file = Some ctype" and "\<not> prefix ''image/'' ctype"
  shows "analyze_body E file coll = (Inl (HTTPException 400 ''Only image files are supported''), coll)"
  using assms by (simp add: analyze_body_def)

text \<open>
  Claim C5. For every upload whose declared content type does not begin with \<open>image/\<close>,
  the analyze endpoint answers with HTTP 400 and writes nothing to the database: the
  collection after the request is the collection before it.
\<close>

theorem non_image_rejected:
  assumes "content_type file = Some ctype" and "\<not> prefix ''image/'' ctype"
  shows "analyze_defects E file coll =
           (Inl (HTTPException 400 ''Only image files are supported''), coll)
         \<and> http_status (fst (analyze_defects E file coll)) = 400
         \<and> snd (analyze_defects E file coll) = coll"
  using analyze_body_not_image [OF assms, of E coll]
  by (simp add: analyze_defects_def http_status_def)

theorem non_image_rejected_witness:
  "content_type textfile = Some ''text/plain'' \<and> \<not> prefix ''image/'' ''text/plain''
   \<and> analyze_defects (replying ''{}'') textfile [[(''id'', PStr ''a'')]] =
       (Inl (HTTPException 400 ''Only image files are supported''), [[(''id'', PStr ''a'')]])
   \<and> http_status (fst (analyze_defects (replying ''{}'') textfile [[(''id'', PStr ''a'')]])) = 400
   \<and> snd (analyze_defects (replying ''{}'') textfile [[(''id'', PStr ''a'')]]) = [[(''id'', PStr ''a'')]]"
proof -
  have c: "content_type textfile = Some ''text/plain''" by (simp add: textfile_def)
  have p: "\<not> prefix ''image/'' ''text/plain''" by simp
  show ?thesis
    using c p non_image_rejected [OF c p, of "replying ''{}''" "[[(''id'', PStr ''a'')]]"]
    by blast
qed

section \<open>Evaluation at the concrete inputs\<close>

lemma model_replies_replying:
  assumes "json_loads (envelope reply) = Some (envelope_data reply)"
  shows "model_replies (replying reply) png reply"
  using call_model_replying [OF assms]
  by (simp add: model_replies_def png_def)

lemma insert_replying: "insert_error (replying reply) doc = None"
  by (simp add: replying_def demo_env_def)

lemma envelope_not_json: "json_loads (envelope ''not json'') = Some (envelope_data ''not json'')"
  by code_simp

lemma loads_not_json: "json_loads (strip_fences ''not json'') = None"
  by code_simp



lemma envelope_empty: "json_loads (envelope ''{}'') = Some (envelope_data ''{}'')"
  by code_simp

lemma loads_empty: "json_loads (strip_fences ''{}'') = Some (PDict [])"
  by code_simp

lemma envelope_seven: "json_loads (envelope reply_seven) = Some (envelope_data reply_seven)"
  by code_simp

lemma loads_seven:
  "json_loads (strip_fences reply_seven) =
     Some (PDict [(''defects_found'', PList []), (''total_defects'', PInt 7)])"
  by code_simp

lemma b64_abcd: "b64encode ''abcd'' = ''YWJjZA==''"
  by (simp add: b64encode.simps b64_char_def b64_alphabet_def Let_def)

lemma build_analysis_no_defects:
  "build_analysis E fname b64 (PDict [(''defects_found'', PList []), (''total_defects'', PInt n)]) =
     Inr \<lparr>id' = uuid4 E, filename = fname, upload_time = utcnow E, total_defects = n,
          defects_found = [], analysis_complete = True, image_base64 = Some b64\<rparr>"
  by (simp add: build_analysis_def py_get_def dict_get_def py_iter_def
      AnalysisResult_new_def validate_int_def)

lemma build_analysis_empty_object:
  "build_analysis E fname b64 (PDict []) =
     Inr \<lparr>id' = uuid4 E, filename = fname, upload_time = utcnow E, total_defects = 0,
          defects_found = [], analysis_complete = True, image_base64 = Some b64\<rparr>"
  by (simp add: build_analysis_def py_get_def dict_get_def py_iter_def
      AnalysisResult_new_def validate_int_def)

lemma analyze_reply_seven:
  "analyze_defects (replying reply_seven) png coll =
     (Inr (success_response (demo_analysis 7)), coll @ [analysis_document (demo_analysis 7)])"
proof -
  let ?E = "replying reply_seven"
  have c: "content_type png = Some ''image/png''" "prefix ''image/'' ''image/png''"
    by (simp_all add: png_def)
  have m: "call_model ?E ''image/png'' (b64encode (file_bytes png)) = Inr reply_seven"
    by (rule call_model_replying [OF envelope_seven])
  have "build_analysis ?E (file_name png) (b64encode (file_bytes png))
          (parse_response reply_seven) = Inr (demo_analysis 7)"
    by (simp add: parse_response_def loads_seven build_analysis_no_defects demo_analysis_def
        png_def b64_abcd replying_def demo_env_def)
  from analyze_defects_ok [OF c m this insert_replying] show ?thesis .
qed

lemma analyze_reply_empty:
  "analyze_defects (replying ''{}'') png coll =
     (Inr (success_response (demo_analysis 0)), coll @ [analysis_document (demo_analysis 0)])"
proof -
  let ?E = "replying ''{}''"
  have c: "content_type png = Some ''image/png''" "prefix ''image/'' ''image/png''"
    by (simp_all add: png_def)
  have m: "call_model ?E ''image/png'' (b64encode (file_bytes png)) = Inr ''{}''"
    by (rule call_model_replying [OF envelope_empty])
  have "build_analysis ?E (file_name png) (b64encode (file_bytes png))
          (parse_response ''{}'') = Inr (demo_analysis 0)"
    by (simp add: parse_response_def loads_empty build_analysis_empty_object demo_analysis_def
        png_def b64_abcd replying_def demo_env_def)
  from analyze_defects_ok [OF c m this insert_replying] show ?thesis .
qed

lemma analysis_document_eq:
  "analysis_document a =
     [(''id'', PStr (id' a)),
      (''filename'', PStr (filename a)),
      (''upload_time'', PStr (isoformat (upload_time a))),
      (''total_defects'', PInt (total_defects a)),
      (''defects_found'', PList (map defect_dump (defects_found a))),
      (''analysis_complete'', PBool (analysis_complete a)),
      (''image_base64'', (case image_base64 a of None \<Rightarrow> PNone | Some b \<Rightarrow> PStr b))]"
  by (simp add: analysis_document_def model_dump_def)

section \<open>The fallback for a reply that is not JSON\<close>

lemma analyze_defects_sentinel:
  assumes "model_replies E file reply"
    and "json_loads (strip_fences reply) = None"
    and "a = \<lparr>id' = uuid4 E, filename = file_name file, upload_time = utcnow E,
               total_defects = 1,
               defects_found =
                 [\<lparr>defect_type = ''Analysis Error'', confidence = FloatOfInt 50,
                   severity = ''Unknown'',
                   description = ''Could not parse AI response properly''\<rparr>],
               analysis_complete = True,
               image_base64 = Some (b64encode (file_bytes file))\<rparr>"
    and "insert_error E (analysis_document a) = None"
  shows "analyze_defects E file coll = (Inr (success_response a), coll @ [analysis_document a])"
proof -
  from assms(1) obtain ctype where c: "content_type file = Some ctype" "prefix ''image/'' ctype"
    "call_model E ctype (b64encode (file_bytes file)) = Inr reply"
    by (auto simp: model_replies_def split: option.splits)
  have "parse_response reply = sentinel"
    using assms(2) by (simp add: parse_response_def)
  then have "build_analysis E (file_name file) (b64encode (file_bytes file))
               (parse_response reply) = Inr a"
    using assms(3) by (simp add: build_analysis_sentinel)
  from analyze_defects_ok [OF c this assms(4)] show ?thesis .
qed

lemma str_nat_digit: "n < 10 \<Longrightarrow> str_nat n = [digit_char n]"
  by (subst str_nat.simps) simp





section \<open>Replies that parse but have another shape\<close>

lemma analyze_defects_Inl:
  assumes "analyze_defects E file coll = (Inl e, coll')"
  shows "coll' = coll"
proof -
  have "snd (analyze_body E file coll) = coll \<or>
        (\<exists>r. fst (analyze_body E file coll) = Inr r)"
    by (auto simp: analyze_body_def insert_one_def Let_def
        split: option.splits sum.splits prod.splits)
  with assms show ?thesis
    by (auto simp: analyze_defects_def split: prod.splits sum.splits exc.splits)
qed







section \<open>The count of defects\<close>

lemma analyze_defects_success:
  assumes "model_replies E file reply"
    and "analyze_defects E file coll = (Inr resp, coll')"
  shows "\<exists>a. build_analysis E (file_name file) (b64encode (file_bytes file))
               (parse_response reply) = Inr a
             \<and> resp = success_response a \<and> coll' = coll @ [analysis_document a]"
proof -
  from analyze_defects_Inr [OF assms(2)] obtain ctype reply' a where
    r: "content_type file = Some ctype"
       "call_model E ctype (b64encode (file_bytes file)) = Inr reply'"
       "build_analysis E (file_name file) (b64encode (file_bytes file))
          (parse_response reply') = Inr a"
       "resp = success_response a" "coll' = coll @ [analysis_document a]"
    by blast
  from assms(1) r(1) have "call_model E ctype (b64encode (file_bytes file)) = Inr reply"
    by (simp add: model_replies_def)
  with r(2) have "reply' = reply" by simp
  with r show ?thesis by blast
qed

text \<open>
  Claim C3. When the parsed reply is an object, the stored \<open>total_defects\<close> is the field
  \<open>total_defects\<close> of the reply whenever the object has it: the integer itself when the
  field is an integer (whatever the length of the list of defects), and what the
  validation of the \<open>int\<close> field makes of it otherwise. It is the length of
  \<open>defects_found\<close> when the object has no such field. The stored document carries the
  same number.
\<close>

theorem total_defects_trusts_reply:
  assumes "model_replies E file reply"
    and "json_loads (strip_fences reply) = Some (PDict d)"
    and "analyze_defects E file coll = (Inr resp, coll')"
  shows "\<exists>a. analysis resp = Some a \<and> coll' = coll @ [analysis_document a]
           \<and> dict_get (analysis_document a) ''total_defects'' = Some (PInt (total_defects a))
           \<and> (case dict_get d ''total_defects'' of
                 Some (PInt n) \<Rightarrow> total_defects a = n
               | Some v \<Rightarrow> coerce_int E v = Some (total_defects a)
               | None \<Rightarrow> total_defects a = int (length (defects_found a)))"
proof -
  from analyze_defects_success [OF assms(1,3)] obtain a where
    a: "build_analysis E (file_name file) (b64encode (file_bytes file))
          (parse_response reply) = Inr a"
       "resp = success_response a" "coll' = coll @ [analysis_document a]"
    by blast
  have p: "parse_response reply = PDict d"
    using assms(2) by (simp add: parse_response_def)
  from build_analysis_Inr [OF a(1)] p
  have v: "validate_int E (case dict_get d ''total_defects'' of
                            Some v \<Rightarrow> v | None \<Rightarrow> PInt (int (length (defects_found a))))
             = Some (total_defects a)"
    by auto
  have "case dict_get d ''total_defects'' of
          Some (PInt n) \<Rightarrow> total_defects a = n
        | Some v \<Rightarrow> coerce_int E v = Some (total_defects a)
        | None \<Rightarrow> total_defects a = int (length (defects_found a))"
    using v by (auto simp: validate_int_def split: option.splits pyobj.splits)
  moreover have "dict_get (analysis_document a) ''total_defects'' = Some (PInt (total_defects a))"
    by (simp add: analysis_document_eq dict_get_def)
  ultimately show ?thesis
    using a(2,3) by (auto simp: success_response_def)
qed

theorem total_defects_trusts_reply_witness:
  "model_replies (replying reply_seven) png reply_seven
   \<and> json_loads (strip_fences reply_seven) =
       Some (PDict [(''defects_found'', PList []), (''total_defects'', PInt 7)])
   \<and> analyze_defects (replying reply_seven) png [] =
       (Inr (success_response (demo_analysis 7)), [] @ [analysis_document (demo_analysis 7)])
   \<and> (\<exists>a. analysis (success_response (demo_analysis 7)) = Some a
          \<and> [] @ [analysis_document (demo_analysis 7)] = [] @ [analysis_document a]
          \<and> dict_get (analysis_document a) ''total_defects'' = Some (PInt (total_defects a))
          \<and> total_defects a = 7
          \<and> length (defects_found a) = 0)"
proof -
  have m: "model_replies (replying reply_seven) png reply_seven"
    by (rule model_replies_replying [OF envelope_seven])
  note t = total_defects_trusts_reply [OF m loads_seven analyze_reply_seven [of "[]"]]
  have "analysis (success_response (demo_analysis 7)) = Some (demo_analysis 7)"
    by (simp add: success_response_def)
  with t have "\<exists>a. analysis (success_response (demo_analysis 7)) = Some a
          \<and> [] @ [analysis_document (demo_analysis 7)] = [] @ [analysis_document a]
          \<and> dict_get (analysis_document a) ''total_defects'' = Some (PInt (total_defects a))
          \<and> total_defects a = 7
          \<and> length (defects_found a) = 0"
    by (auto simp: dict_get_def demo_analysis_def)
  with m loads_seven analyze_reply_seven [of "[]"] show ?thesis by blast
qed

section \<open>The stored document and the returned result\<close>

lemma analyze_defects_result:
  assumes "analyze_defects E file coll = (Inr resp, coll')"
  shows "\<exists>a. resp = success_response a \<and> coll' = coll @ [analysis_document a]
           \<and> id' a = uuid4 E \<and> filename a = file_name file \<and> upload_time a = utcnow E
           \<and> analysis_complete a \<and> image_base64 a = Some (b64encode (file_bytes file))"
proof -
  from analyze_defects_Inr [OF assms] obtain ctype reply a where
    r: "build_analysis E (file_name file) (b64encode (file_bytes file))
          (parse_response reply) = Inr a"
       "resp = success_response a" "coll' = coll @ [analysis_document a]"
    by blast
  from build_analysis_Inr [OF r(1)] r(2,3) show ?thesis by blast
qed

text \<open>
  Claim C7, as the code has it. On a successful analyze request the document inserted
  into the collection has exactly the keys \<open>id\<close>, \<open>filename\<close>, \<open>upload_time\<close>,
  \<open>total_defects\<close>, \<open>defects_found\<close>, \<open>analysis_complete\<close> and \<open>image_base64\<close>, in this order,
  with the values of the returned result, and \<open>upload_time\<close> is the string that
  \<open>isoformat()\<close> gives for the upload time (the time drawn for this request).
\<close>

theorem stored_document_fields:
  assumes "analyze_defects E file coll = (Inr resp, coll')"
  shows "\<exists>a doc. analysis resp = Some a \<and> coll' = coll @ [doc]
           \<and> dict_keys doc =
               [''id'', ''filename'', ''upload_time'', ''total_defects'', ''defects_found'',
                ''analysis_complete'', ''image_base64'']
           \<and> doc =
               [(''id'', PStr (id' a)),
                (''filename'', PStr (filename a)),
                (''upload_time'', PStr (isoformat (upload_time a))),
                (''total_defects'', PInt (total_defects a)),
                (''defects_found'', PList (map defect_dump (defects_found a))),
                (''analysis_complete'', PBool (analysis_complete a)),
                (''image_base64'', PStr (b64encode (file_bytes file)))]
           \<and> upload_time a = utcnow E"
proof -
  from analyze_defects_result [OF assms] obtain a where
    a: "resp = success_response a" "coll' = coll @ [analysis_document a]"
       "upload_time a = utcnow E" "image_base64 a = Some (b64encode (file_bytes file))"
    by blast
  have "analysis resp = Some a"
    using a(1) by (simp add: success_response_def)
  moreover have "analysis_document a =
               [(''id'', PStr (id' a)),
                (''filename'', PStr (filename a)),
                (''upload_time'', PStr (isoformat (upload_time a))),
                (''total_defects'', PInt (total_defects a)),
                (''defects_found'', PList (map defect_dump (defects_found a))),
                (''analysis_complete'', PBool (analysis_complete a)),
                (''image_base64'', PStr (b64encode (file_bytes file)))]"
    using a(4) by (simp add: analysis_document_eq)
  moreover from this have "dict_keys (analysis_document a) =
               [''id'', ''filename'', ''upload_time'', ''total_defects'', ''defects_found'',
                ''analysis_complete'', ''image_base64'']"
    by (simp add: dict_keys_def)
  ultimately show ?thesis
    using a(2,3) by blast
qed

lemma isoformat_demo_now: "isoformat demo_now = ''2024-05-17T09:30:00''"
  by (simp add: isoformat_def demo_now_def zero_pad_def str_nat.simps [of 2024]
      str_nat.simps [of 202] str_nat.simps [of 20] str_nat.simps [of 17]
      str_nat.simps [of 30] str_nat_digit digit_char_def)

theorem stored_document_fields_witness:
  "analyze_defects (replying ''{}'') png [] =
     (Inr (success_response (demo_analysis 0)), [] @ [analysis_document (demo_analysis 0)])
   \<and> (\<exists>a doc. analysis (success_response (demo_analysis 0)) = Some a
         \<and> [] @ [analysis_document (demo_analysis 0)] = [] @ [doc]
         \<and> dict_keys doc =
             [''id'', ''filename'', ''upload_time'', ''total_defects'', ''defects_found'',
              ''analysis_complete'', ''image_base64'']
         \<and> doc =
             [(''id'', PStr (id' a)),
              (''filename'', PStr (filename a)),
              (''upload_time'', PStr (isoformat (upload_time a))),
              (''total_defects'', PInt (total_defects a)),
              (''defects_found'', PList (map defect_dump (defects_found a))),
              (''analysis_complete'', PBool (analysis_complete a)),
              (''image_base64'', PStr (b64encode (file_bytes png)))]
         \<and> upload_time a = utcnow (replying ''{}''))
   \<and> analysis_document (demo_analysis 0) =
       [(''id'', PStr ''6f1c''),
        (''filename'', PStr ''weld.png''),
        (''upload_time'', PStr ''2024-05-17T09:30:00''),
        (''total_defects'', PInt 0),
        (''defects_found'', PList []),
        (''analysis_complete'', PBool True),
        (''image_base64'', PStr ''YWJjZA=='')]"
proof -
  have "analysis_document (demo_analysis 0) =
       [(''id'', PStr ''6f1c''),
        (''filename'', PStr ''weld.png''),
        (''upload_time'', PStr ''2024-05-17T09:30:00''),
        (''total_defects'', PInt 0),
        (''defects_found'', PList []),
        (''analysis_complete'', PBool True),
        (''image_base64'', PStr ''YWJjZA=='')]"
    by (simp add: analysis_document_eq demo_analysis_def isoformat_demo_now)
  with stored_document_fields [OF analyze_reply_empty [of "[]"]] analyze_reply_empty [of "[]"]
  show ?thesis by blast
qed

text \<open>The claim names a key \<open>image_encoded\<close>; the document of the code has none: at the
  reply \<open>{}\<close> the request succeeds and the keys of the stored document are not the set of
  the claim.\<close>

theorem stored_document_fields_counterexample:
  "http_status (fst (analyze_defects (replying ''{}'') png [])) = 200
   \<and> set (dict_keys (last (snd (analyze_defects (replying ''{}'') png []))))
       \<noteq> {''id'', ''filename'', ''upload_time'', ''total_defects'', ''defects_found'',
           ''analysis_complete'', ''image_encoded''}"
proof -
  let ?S = "{''id'', ''filename'', ''upload_time'', ''total_defects'', ''defects_found'',
             ''analysis_complete'', ''image_encoded''}"
  have notin: "''image_encoded'' \<notin> set (dict_keys (analysis_document (demo_analysis 0)))"
    by (simp add: analysis_document_eq dict_keys_def)
  have "set (dict_keys (analysis_document (demo_analysis 0))) \<noteq> ?S"
  proof
    assume "set (dict_keys (analysis_document (demo_analysis 0))) = ?S"
    with notin show False by simp
  qed
  then show ?thesis
    by (simp add: analyze_reply_empty http_status_def)
qed

text \<open>
  Claim C9. On every successful analyze request the field \<open>image_base64\<close> of the returned
  result is present and is the base64 encoding of exactly the bytes of the upload, and
  the stored document carries the same string under \<open>image_base64\<close>.
\<close>

theorem image_base64_of_upload:
  assumes "analyze_defects E file coll = (Inr resp, coll')"
  shows "\<exists>a. analysis resp = Some a
           \<and> image_base64 a = Some (b64encode (file_bytes file))
           \<and> coll' = coll @ [analysis_document a]
           \<and> dict_get (analysis_document a) ''image_base64''
               = Some (PStr (b64encode (file_bytes file)))"
proof -
  from analyze_defects_result [OF assms] obtain a where
    a: "resp = success_response a" "coll' = coll @ [analysis_document a]"
       "image_base64 a = Some (b64encode (file_bytes file))"
    by blast
  have "analysis resp = Some a"
    using a(1) by (simp add: success_response_def)
  moreover have "dict_get (analysis_document a) ''image_base64''
                   = Some (PStr (b64encode (file_bytes file)))"
    using a(3) by (simp add: analysis_document_eq dict_get_def)
  ultimately show ?thesis
    using a(2,3) by blast
qed

theorem image_base64_of_upload_witness:
  "analyze_defects (replying reply_seven) png [] =
     (Inr (success_response (demo_analysis 7)), [] @ [analysis_document (demo_analysis 7)])
   \<and> b64encode (file_bytes png) = ''YWJjZA==''
   \<and> (\<exists>a. analysis (success_response (demo_analysis 7)) = Some a
          \<and> image_base64 a = Some (b64encode (file_bytes png))
          \<and> [] @ [analysis_document (demo_analysis 7)] = [] @ [analysis_document a]
          \<and> dict_get (analysis_document a) ''image_base64''
              = Some (PStr (b64encode (file_bytes png))))"
proof -
  have "b64encode (file_bytes png) = ''YWJjZA==''"
    by (simp add: png_def b64_abcd)
  with image_base64_of_upload [OF analyze_reply_seven [of "[]"]] analyze_reply_seven [of "[]"]
  show ?thesis by blast
qed

text \<open>
  Claim C10. Every result that the analyze endpoint produces has
  \<open>analysis_complete = True\<close>, on every path, the fallback for an unparsable reply
  included; and the endpoint never adds to the collection a document whose
  \<open>analysis_complete\<close> is not \<open>True\<close>: if all documents of the collection have it before a
  request, all have it after.
\<close>

theorem analysis_complete_always:
  assumes "\<forall>doc \<in> set coll. dict_get doc ''analysis_complete'' = Some (PBool True)"
  shows "(\<forall>doc \<in> set (snd (analyze_defects E file coll)).
            dict_get doc ''analysis_complete'' = Some (PBool True))
         \<and> (\<forall>a. response_analysis (fst (analyze_defects E file coll)) = Some a
                 \<longrightarrow> analysis_complete a)"
proof (cases "fst (analyze_defects E file coll)")
  case (Inl e)
  then have "analyze_defects E file coll = (Inl e, snd (analyze_defects E file coll))"
    by (metis prod.collapse)
  from analyze_defects_Inl [OF this] Inl assms show ?thesis
    by (simp add: response_analysis_def)
next
  case (Inr resp)
  then have "analyze_defects E file coll = (Inr resp, snd (analyze_defects E file coll))"
    by (metis prod.collapse)
  from analyze_defects_result [OF this] obtain a where
    a: "resp = success_response a"
       "snd (analyze_defects E file coll) = coll @ [analysis_document a]"
       "analysis_complete a"
    by blast
  have "dict_get (analysis_document a) ''analysis_complete'' = Some (PBool True)"
    using a(3) by (simp add: analysis_document_eq dict_get_def)
  with assms a Inr show ?thesis
    by (auto simp: response_analysis_def success_response_def)
qed

theorem analysis_complete_always_witness:
  "map (\<lambda>doc. dict_get doc ''analysis_complete'') [analysis_document (demo_analysis 0)]
     = [Some (PBool True)]
   \<and> json_loads (strip_fences ''not json'') = None
   \<and> map (\<lambda>doc. dict_get doc ''analysis_complete'')
         (snd (analyze_defects (replying ''not json'') png [analysis_document (demo_analysis 0)]))
       = [Some (PBool True), Some (PBool True)]
   \<and> map_option analysis_complete
         (response_analysis (fst (analyze_defects (replying ''not json'') png
                                    [analysis_document (demo_analysis 0)])))
       = Some True"
proof -
  let ?r = "analyze_defects (replying ''not json'') png [analysis_document (demo_analysis 0)]"
  have h: "\<forall>doc \<in> set [analysis_document (demo_analysis 0)].
             dict_get doc ''analysis_complete'' = Some (PBool True)"
    by (simp add: analysis_document_eq dict_get_def demo_analysis_def)
  have m: "model_replies (replying ''not json'') png ''not json''"
    by (rule model_replies_replying [OF envelope_not_json])
  note s = analyze_defects_sentinel [OF m loads_not_json refl insert_replying,
      of "[analysis_document (demo_analysis 0)]"]
  obtain d1 d2 a where r: "snd ?r = [d1, d2]" "response_analysis (fst ?r) = Some a"
    by (simp add: s response_analysis_def success_response_def)
  from analysis_complete_always [OF h, of "replying ''not json''" png] r
  have "dict_get d1 ''analysis_complete'' = Some (PBool True)"
    "dict_get d2 ''analysis_complete'' = Some (PBool True)" "analysis_complete a"
    by simp_all
  with r h loads_not_json show ?thesis by simp
qed

section \<open>The answers of the remote endpoint that are not a success\<close>

lemma leaked_message_has_marker:
  "contains leaked_marker
     (''Your Gemini API key was reported as leaked and is blocked. '' @
      ''Please generate a new key and update GOOGLE_API_KEY.'')"
  by (simp add: leaked_marker_def)

lemma call_model_not_success:
  assumes "GOOGLE_API_KEY E = Some key" and "key \<noteq> []"
    and "\<And>url payload. post E url payload = Response resp"
    and "\<not> is_success (status_code resp)"
  shows "call_model E ctype b =
           Inl (HTTPException 500
                  (if status_code resp = 403 \<and> contains leaked_marker (body_text resp)
                   then leaked_detail
                   else if contains leaked_marker (status_error resp) then leaked_detail
                   else ''Analysis failed while calling LLM: '' @ status_error resp))"
proof -
  obtain chat where chat: "create_gemini_chat E = Inr chat" "api_key chat = Some key"
    using create_gemini_chat_key [OF assms(1,2)] by auto
  have "send_message E chat um =
          (if status_code resp = 403 \<and> contains leaked_marker (body_text resp)
           then Inl (Raised RuntimeError
                  (''Your Gemini API key was reported as leaked and is blocked. '' @
                   ''Please generate a new key and update GOOGLE_API_KEY.''))
           else Inl (Raised HTTPStatusError (status_error resp)))" for um
    using chat(2) assms(2,3,4) by (simp add: send_message_def)
  then show ?thesis
    using chat(1) leaked_message_has_marker
    by (simp add: call_model_def Let_def)
qed

lemma analyze_defects_model_fails:
  assumes "content_type file = Some ctype" and "prefix ''image/'' ctype"
    and "call_model E ctype (b64encode (file_bytes file)) = Inl (HTTPException c d)"
  shows "analyze_defects E file coll = (Inl (HTTPException c d), coll)"
  using assms by (simp add: analyze_defects_def analyze_body_def)

lemma leaked_detail_instructs: "contains ''Please generate a new API key'' leaked_detail"
  by (simp add: leaked_detail_def)

lemma leaked_detail_not_generic: "leaked_detail \<noteq> ''Analysis failed while calling LLM: '' @ m"
  by (simp add: leaked_detail_def)

text \<open>
  Claim C6. When the remote endpoint answers with status 403 and a body that contains
  the phrase \<open>reported as leaked\<close>, the analyze endpoint answers with status 500 and a
  detail that tells the operator to generate a new API key. That detail differs from
  the generic one, \<open>Analysis failed while calling LLM: \<close> followed by the text of the
  status error, which every other answer that is not a success gets (unless the text
  of its status error itself contains the phrase). Nothing is written to the database.
\<close>

theorem leaked_key_distinct_500:
  assumes "content_type file = Some ctype" and "prefix ''image/'' ctype"
    and "GOOGLE_API_KEY E = Some key" and "key \<noteq> []"
    and "\<And>url payload. post E url payload = Response resp"
    and "\<not> is_success (status_code resp)"
  shows "analyze_defects E file coll =
           (Inl (HTTPException 500
                   (if status_code resp = 403 \<and> contains leaked_marker (body_text resp)
                    then leaked_detail
                    else if contains leaked_marker (status_error resp) then leaked_detail
                    else ''Analysis failed while calling LLM: '' @ status_error resp)), coll)
         \<and> contains ''Please generate a new API key'' leaked_detail
         \<and> leaked_detail \<noteq> ''Analysis failed while calling LLM: '' @ status_error resp"
  using analyze_defects_model_fails
          [OF assms(1,2) call_model_not_success [OF assms(3,4,5,6)], of coll]
        leaked_detail_instructs leaked_detail_not_generic
  by simp

theorem leaked_key_distinct_500_witness:
  "status_code leaked_response = 403
   \<and> contains leaked_marker (body_text leaked_response)
   \<and> analyze_defects (demo_env (Response leaked_response)) png [] =
       (Inl (HTTPException 500 leaked_detail), [])
   \<and> contains ''Please generate a new API key'' leaked_detail
   \<and> status_code missing_response = 404
   \<and> analyze_defects (demo_env (Response missing_response)) png [] =
       (Inl (HTTPException 500
               ''Analysis failed while calling LLM: Client error 404 Not Found''), [])
   \<and> leaked_detail \<noteq> ''Analysis failed while calling LLM: Client error 404 Not Found''"
proof -
  have c: "content_type png = Some ''image/png''" "prefix ''image/'' ''image/png''"
    by (simp_all add: png_def)
  have k: "GOOGLE_API_KEY (demo_env out) = Some ''k''" "''k'' \<noteq> []" for out
    by (simp_all add: demo_env_def)
  have p: "post (demo_env (Response r)) url payload = Response r" for r url payload
    by (simp add: demo_env_def)
  have l: "status_code leaked_response = 403"
    "contains leaked_marker (body_text leaked_response)"
    "\<not> is_success (status_code leaked_response)"
    by (simp_all add: leaked_response_def leaked_marker_def is_success_def)
  have n: "status_code missing_response = 404"
    "\<not> contains leaked_marker (status_error missing_response)"
    "\<not> is_success (status_code missing_response)"
    "status_error missing_response = ''Client error 404 Not Found''"
    by (simp_all add: missing_response_def leaked_marker_def is_success_def)
  from leaked_key_distinct_500 [OF c k p l(3), of "[]"]
       leaked_key_distinct_500 [OF c k p n(3), of "[]"] l n
  show ?thesis by simp
qed

section \<open>Fenced replies\<close>

lemma space_found:
  "\<forall>w \<in> set unicode_spaces.
     find (\<lambda>u. u \<noteq> [] \<and> prefix u (w @ r)) unicode_spaces = Some w"
  by (simp add: unicode_spaces_def)

lemma rev_space_found:
  "\<forall>w \<in> set (map rev unicode_spaces).
     find (\<lambda>u. u \<noteq> [] \<and> prefix u (w @ r)) (map rev unicode_spaces) = Some w"
  by (simp add: unicode_spaces_def)

lemma strip_seqs_step:
  assumes "find (\<lambda>u. u \<noteq> [] \<and> prefix u (w @ r)) ws = Some w"
  shows "strip_seqs ws (w @ r) = strip_seqs ws r"
  using assms by (subst strip_seqs.simps) simp

lemma strip_seqs_concat:
  assumes "\<forall>w \<in> set ws. \<forall>r. find (\<lambda>u. u \<noteq> [] \<and> prefix u (w @ r)) ws = Some w"
    and "set us \<subseteq> set ws"
  shows "strip_seqs ws (concat us @ r) = strip_seqs ws r"
  using assms(2)
proof (induction us)
  case Nil
  then show ?case by simp
next
  case (Cons u us)
  then have "find (\<lambda>v. v \<noteq> [] \<and> prefix v (u @ (concat us @ r))) ws = Some u"
    using assms(1) by simp
  from strip_seqs_step [OF this] Cons show ?case by simp
qed

lemma strip_seqs_empty_concat:
  "strip_seqs ws w = [] \<Longrightarrow> \<exists>us. set us \<subseteq> set ws \<and> w = concat us"
proof (induction ws w rule: strip_seqs.induct)
  case (1 ws s)
  show ?case
  proof (cases "find (\<lambda>w. w \<noteq> [] \<and> prefix w s) ws")
    case None
    with "1.prems" have "s = []"
      by (subst (asm) strip_seqs.simps) simp
    then show ?thesis
      by (intro exI [of _ "[]"]) simp
  next
    case (Some u)
    with "1.prems" have "strip_seqs ws (drop (length u) s) = []"
      by (subst (asm) strip_seqs.simps) simp
    from "1.IH" [OF Some this] obtain us where
      us: "set us \<subseteq> set ws" "drop (length u) s = concat us"
      by blast
    from Some have u: "u \<in> set ws" "prefix u s"
      by (auto simp: find_Some_iff in_set_conv_nth)
    then have "s = u @ drop (length u) s"
      by (auto simp: prefix_def)
    with us u(1) show ?thesis
      by (intro exI [of _ "u # us"]) simp
  qed
qed

lemma lstrip_blank: "is_blank w \<Longrightarrow> lstrip (w @ r) = lstrip r"
proof -
  assume "is_blank w"
  then obtain us where us: "set us \<subseteq> set unicode_spaces" "w = concat us"
    using strip_seqs_empty_concat [of unicode_spaces w] by (auto simp: is_blank_def lstrip_def)
  show ?thesis
    unfolding lstrip_def us(2)
    by (rule strip_seqs_concat [OF _ us(1)]) (use space_found in blast)
qed

lemma rstrip_blank: "is_blank w \<Longrightarrow> rstrip (r @ w) = rstrip r"
proof -
  assume "is_blank w"
  then obtain us where us: "set us \<subseteq> set unicode_spaces" "w = concat us"
    using strip_seqs_empty_concat [of unicode_spaces w] by (auto simp: is_blank_def lstrip_def)
  have r: "rev w = concat (rev (map rev us))"
    by (simp add: us(2) rev_concat rev_map)
  have s: "set (rev (map rev us)) \<subseteq> set (map rev unicode_spaces)"
    using us(1) by auto
  have "strip_seqs (map rev unicode_spaces) (concat (rev (map rev us)) @ rev r)
          = strip_seqs (map rev unicode_spaces) (rev r)"
    by (rule strip_seqs_concat [OF _ s]) (use rev_space_found in blast)
  then show ?thesis
    by (simp add: rstrip_def r)
qed

lemma lstrip_fence: "lstrip (fence_open @ x) = fence_open @ x"
  unfolding lstrip_def
  by (subst strip_seqs.simps) (simp add: unicode_spaces_def fence_open_def)

lemma rstrip_fence: "rstrip (x @ fence_close) = x @ fence_close"
  unfolding rstrip_def
  by (subst strip_seqs.simps) (simp add: unicode_spaces_def fence_close_def)

lemma strip_fenced:
  assumes "is_blank w1" and "is_blank w2"
  shows "strip (w1 @ fence_open @ s @ fence_close @ w2) = fence_open @ s @ fence_close"
proof -
  let ?core = "fence_open @ s @ fence_close"
  have "lstrip (w1 @ ?core @ w2) = ?core @ w2"
    using lstrip_fence [of "s @ fence_close @ w2"] by (simp add: lstrip_blank [OF assms(1)])
  moreover have "rstrip (?core @ w2) = rstrip ?core"
    by (rule rstrip_blank [OF assms(2)])
  moreover have "rstrip ?core = ?core"
    using rstrip_fence [of "fence_open @ s"] by simp
  ultimately have "rstrip (lstrip (w1 @ ?core @ w2)) = ?core"
    by simp
  then show ?thesis
    by (simp add: strip_def)
qed

lemma strip_fences_fenced:
  assumes "is_blank w1" and "is_blank w2"
  shows "strip_fences (w1 @ fence_open @ s @ fence_close @ w2) = s"
proof -
  have l: "length fence_open = 7" "length fence_close = 3"
    by (simp_all add: fence_open_def fence_close_def)
  have "suffix fence_close (s @ fence_close)"
    by (simp add: suffix_def)
  then show ?thesis
    by (simp add: strip_fences_def strip_fenced [OF assms] l)
qed

lemma strip_fences_plain:
  assumes "\<not> prefix fence_open (strip s)" and "\<not> suffix fence_close (strip s)"
  shows "strip_fences s = strip s"
  using assms by (simp add: strip_fences_def)

text \<open>
  Claim C4, as the code has it. The parser removes surrounding whitespace, then the
  7-character marker at the front if it is there, then the 3-character marker at the
  end if it is there: for every payload \<open>s\<close> the text parsed for the reply
  \<open>```json\<close> + \<open>s\<close> + \<open>```\<close>, with or without whitespace around it, is \<open>s\<close> itself. It
  gives the same analysis data as the reply \<open>s\<close> without fences whenever \<open>s\<close>, once
  trimmed, does not itself begin with \<open>```json\<close> or end with \<open>```\<close>, and trimming \<open>s\<close>
  does not change what \<open>json.loads\<close> makes of it.
\<close>

theorem fenced_reply_parses_as_payload:
  assumes "is_blank w1" and "is_blank w2"
    and "\<not> prefix fence_open (strip s)" and "\<not> suffix fence_close (strip s)"
    and "json_loads (strip s) = json_loads s"
  shows "strip_fences (w1 @ fence_open @ s @ fence_close @ w2) = s
         \<and> parse_response (w1 @ fence_open @ s @ fence_close @ w2) = parse_response s"
  using strip_fences_fenced [OF assms(1,2), of s] strip_fences_plain [OF assms(3,4)] assms(5)
  by (simp add: parse_response_def)

lemma strip_reply_seven: "strip reply_seven = reply_seven"
  by code_simp

theorem fenced_reply_parses_as_payload_witness:
  "is_blank '' '' \<and> is_blank ''\<newline>''
   \<and> strip reply_seven = reply_seven
   \<and> \<not> prefix fence_open reply_seven \<and> \<not> suffix fence_close reply_seven
   \<and> strip_fences ('' '' @ fence_open @ reply_seven @ fence_close @ ''\<newline>'') = reply_seven
   \<and> parse_response ('' '' @ fence_open @ reply_seven @ fence_close @ ''\<newline>'')
       = parse_response reply_seven
   \<and> parse_response reply_seven =
       PDict [(''defects_found'', PList []), (''total_defects'', PInt 7)]"
proof -
  have b: "is_blank '' ''" "is_blank ''\<newline>''"
    by code_simp+
  have f: "\<not> prefix fence_open reply_seven" "\<not> suffix fence_close reply_seven"
    by code_simp+
  have p: "parse_response reply_seven =
             PDict [(''defects_found'', PList []), (''total_defects'', PInt 7)]"
    by (simp add: parse_response_def loads_seven)
  from fenced_reply_parses_as_payload [OF b, of reply_seven] f strip_reply_seven b p
  show ?thesis by simp
qed

text \<open>The claim fails for a payload that is itself fenced: fenced once it parses as the
  empty object, fenced twice it is not JSON after one pair of markers is removed and
  the fallback takes its place.\<close>

theorem fenced_twice_counterexample:
  "parse_response (fence_open @ (fence_open @ ''{}'' @ fence_close) @ fence_close) = sentinel
   \<and> parse_response (fence_open @ ''{}'' @ fence_close) = PDict []
   \<and> parse_response (fence_open @ (fence_open @ ''{}'' @ fence_close) @ fence_close)
       \<noteq> parse_response (fence_open @ ''{}'' @ fence_close)"
proof -
  have a: "parse_response (fence_open @ (fence_open @ ''{}'' @ fence_close) @ fence_close)
             = sentinel"
    by code_simp
  have b: "parse_response (fence_open @ ''{}'' @ fence_close) = PDict []"
    by code_simp
  show ?thesis
    unfolding a b by (simp add: sentinel_def)
qed

section \<open>The order of the stored times\<close>

text \<open>The strings that \<open>isoformat\<close> writes for two valid datetimes compare, byte by
  byte, as the datetimes do.\<close>

lemma lex_le_refl: "lex_le xs xs"
  by (induction xs) auto

lemma lex_le_total: "lex_le xs ys \<or> lex_le ys xs"
  by (induction xs ys rule: lex_le.induct) auto

lemma lex_le_trans: "lex_le xs ys \<Longrightarrow> lex_le ys zs \<Longrightarrow> lex_le xs zs"
proof (induction xs ys arbitrary: zs rule: lex_le.induct)
  case (1 ys)
  then show ?case by simp
next
  case (2 x xs)
  then show ?case by simp
next
  case (3 x xs y ys)
  then show ?case by (cases zs) auto
qed

lemma lex_le_Nil: "lex_le ys [] \<longleftrightarrow> ys = []"
  by (cases ys) auto

lemma lex_le_antisym: "lex_le xs ys \<Longrightarrow> lex_le ys xs \<Longrightarrow> xs = ys"
  by (induction xs ys rule: lex_le.induct) (auto simp: lex_le_Nil)

lemma lex_le_append:
  assumes "length xs = length ys"
  shows "lex_le (xs @ us) (ys @ vs) \<longleftrightarrow> (lex_le xs ys \<and> xs \<noteq> ys) \<or> (xs = ys \<and> lex_le us vs)"
  using assms
proof (induction xs ys rule: list_induct2)
  case Nil
  then show ?case by simp
next
  case (Cons x xs y ys)
  then show ?case by auto
qed

text \<open>Fixed-width decimal digits.\<close>

fun digits :: "nat \<Rightarrow> nat \<Rightarrow> string" where
  "digits 0 n = []"
| "digits (Suc w) n = digits w (n div 10) @ [digit_char (n mod 10)]"

lemma length_digits: "length (digits w n) = w"
  by (induction w arbitrary: n) auto

lemma digits_zero: "digits w 0 = replicate w (CHR ''0'')"
  by (induction w) (auto simp: digit_char_def replicate_append_same)

lemma str_nat_ge10: "10 \<le> n \<Longrightarrow> str_nat n = str_nat (n div 10) @ [digit_char (n mod 10)]"
  by (subst str_nat.simps) simp

lemma length_str_nat: "n < 10 ^ w \<Longrightarrow> 0 < w \<Longrightarrow> length (str_nat n) \<le> w"
proof (induction w arbitrary: n)
  case 0
  then show ?case by simp
next
  case (Suc w)
  show ?case
  proof (cases "n < 10")
    case True
    then show ?thesis by (simp add: str_nat_digit)
  next
    case False
    then have w: "0 < w" using Suc.prems by (cases w) auto
    from Suc.prems have "n div 10 < 10 ^ w" by (simp add: less_mult_imp_div_less)
    from Suc.IH [OF this w] False show ?thesis
      by (simp add: str_nat_ge10)
  qed
qed

lemma zero_pad_digits: "n < 10 ^ w \<Longrightarrow> 0 < w \<Longrightarrow> zero_pad w n = digits w n"
proof (induction w arbitrary: n)
  case 0
  then show ?case by simp
next
  case (Suc w)
  show ?case
  proof (cases "n < 10")
    case True
    then show ?thesis
      by (simp add: zero_pad_def str_nat_digit digits_zero)
  next
    case False
    then have w: "0 < w" using Suc.prems by (cases w) auto
    from Suc.prems have d: "n div 10 < 10 ^ w" by (simp add: less_mult_imp_div_less)
    from length_str_nat [OF d w] have "length (str_nat (n div 10)) \<le> w" .
    with Suc.IH [OF d w] False show ?thesis
      by (simp add: zero_pad_def str_nat_ge10 Suc_diff_le)
  qed
qed

lemma of_char_digit: "d < 10 \<Longrightarrow> (of_char (digit_char d) :: nat) = 48 + d"
proof -
  assume "d < 10"
  then have "d \<in> {0, 1, 2, 3, 4, 5, 6, 7, 8, 9}" by auto
  then show ?thesis by (auto simp: digit_char_def)
qed

definition codes :: "string \<Rightarrow> nat list" where
  "codes s = map of_char s"

lemma dec_le:
  fixes a b c d :: nat
  assumes "b < 10" and "d < 10"
  shows "(10 * a + b \<le> 10 * c + d) = (a < c \<or> (a = c \<and> b \<le> d))"
proof (cases a c rule: linorder_cases)
  case less
  then have "10 * a + 10 \<le> 10 * c" by simp
  with assms less show ?thesis by simp
next
  case equal
  then show ?thesis by simp
next
  case greater
  then have "10 * c + 10 \<le> 10 * a" by simp
  with assms greater show ?thesis by simp
qed
lemma dec_eq:
  fixes a b c d :: nat
  assumes "b < 10" and "d < 10"
  shows "(10 * a + b = 10 * c + d) = (a = c \<and> b = d)"
proof (cases a c rule: linorder_cases)
  case less
  then have "10 * a + 10 \<le> 10 * c" by simp
  with assms less show ?thesis by simp
next
  case equal
  then show ?thesis by simp
next
  case greater
  then have "10 * c + 10 \<le> 10 * a" by simp
  with assms greater show ?thesis by simp
qed

lemma digits_order:
  "m < 10 ^ w \<Longrightarrow> n < 10 ^ w \<Longrightarrow>
     (lex_le (codes (digits w m)) (codes (digits w n)) \<longleftrightarrow> m \<le> n)
     \<and> (codes (digits w m) = codes (digits w n) \<longleftrightarrow> m = n)"
proof (induction w arbitrary: m n)
  case 0
  then show ?case by (simp add: codes_def)
next
  case (Suc w)
  define a b c d where "a = m div 10" and "b = m mod 10" and "c = n div 10" and "d = n mod 10"
  have m: "m = 10 * a + b" "b < 10" and n: "n = 10 * c + d" "d < 10"
    by (simp_all add: a_def b_def c_def d_def)
  from Suc.prems have "a < 10 ^ w" "c < 10 ^ w"
    by (simp_all add: a_def c_def less_mult_imp_div_less)
  from Suc.IH [OF this]
  have ih: "lex_le (codes (digits w a)) (codes (digits w c)) \<longleftrightarrow> a \<le> c"
    "codes (digits w a) = codes (digits w c) \<longleftrightarrow> a = c"
    by simp_all
  have l: "length (codes (digits w a)) = length (codes (digits w c))"
    by (simp add: codes_def length_digits)
  have cm: "codes (digits (Suc w) m) = codes (digits w a) @ [48 + b]"
    and cn: "codes (digits (Suc w) n) = codes (digits w c) @ [48 + d]"
    using m(2) n(2) by (simp_all add: codes_def of_char_digit a_def b_def c_def d_def)
  have "10 * a + b \<le> 10 * c + d \<longleftrightarrow> a < c \<or> (a = c \<and> b \<le> d)"
    by (rule dec_le [OF m(2) n(2)])
  then have le: "m \<le> n \<longleftrightarrow> a < c \<or> (a = c \<and> b \<le> d)"
    by (simp only: m(1) n(1))
  have "10 * a + b = 10 * c + d \<longleftrightarrow> a = c \<and> b = d"
    by (rule dec_eq [OF m(2) n(2)])
  then have eq: "m = n \<longleftrightarrow> a = c \<and> b = d"
    by (simp only: m(1) n(1))
  have "lex_le (codes (digits (Suc w) m)) (codes (digits (Suc w) n)) \<longleftrightarrow>
          a < c \<or> (a = c \<and> b \<le> d)"
    unfolding cm cn lex_le_append [OF l] ih by auto
  moreover have "codes (digits (Suc w) m) = codes (digits (Suc w) n) \<longleftrightarrow> a = c \<and> b = d"
    unfolding cm cn using ih(2) by simp
  ultimately show ?case
    using le eq by simp
qed

lemma pad_order:
  assumes "m < 10 ^ w" and "n < 10 ^ w" and "0 < w"
  shows "length (codes (zero_pad w m)) = w"
    and "lex_le (codes (zero_pad w m)) (codes (zero_pad w n)) \<longleftrightarrow> m \<le> n"
    and "codes (zero_pad w m) = codes (zero_pad w n) \<longleftrightarrow> m = n"
  using digits_order [OF assms(1,2)]
  by (simp_all add: zero_pad_digits assms codes_def length_digits)

lemma block_cmp:
  assumes "length A = length B"
  shows "lex_le (A @ c # R) (B @ c # R') \<longleftrightarrow> (lex_le A B \<and> A \<noteq> B) \<or> (A = B \<and> lex_le R R')"
  by (simp add: lex_le_append [OF assms])

definition frac :: "nat \<Rightarrow> string" where
  "frac u = (if u = 0 then [] else ''.'' @ zero_pad 6 u)"

lemma frac_order:
  assumes "u < 1000000" and "v < 1000000"
  shows "lex_le (codes (frac u)) (codes (frac v)) \<longleftrightarrow> u \<le> v"
proof -
  have "u < 10 ^ 6" "v < 10 ^ 6" using assms by simp_all
  from pad_order(2) [OF this] show ?thesis
    by (auto simp: frac_def codes_def)
qed

lemma isoformat_order:
  assumes "valid_datetime a" and "valid_datetime b"
  shows "str_le (isoformat a) (isoformat b) \<longleftrightarrow> dt_le a b"
proof -
  have y: "year a < 10 ^ 4" "year b < 10 ^ 4"
    and mo: "month a < 10 ^ 2" "month b < 10 ^ 2"
    and d: "day a < 10 ^ 2" "day b < 10 ^ 2"
    and h: "hour a < 10 ^ 2" "hour b < 10 ^ 2"
    and mi: "minute a < 10 ^ 2" "minute b < 10 ^ 2"
    and s: "second a < 10 ^ 2" "second b < 10 ^ 2"
    and u: "microsecond a < 1000000" "microsecond b < 1000000"
    using assms by (simp_all add: valid_datetime_def)
  note Y = pad_order [OF y] pad_order(1) [OF y(2) y(2)]
  note M = pad_order [OF mo] pad_order(1) [OF mo(2) mo(2)]
  note D = pad_order [OF d] pad_order(1) [OF d(2) d(2)]
  note H = pad_order [OF h] pad_order(1) [OF h(2) h(2)]
  note Mi = pad_order [OF mi] pad_order(1) [OF mi(2) mi(2)]
  note S = pad_order [OF s] pad_order(1) [OF s(2) s(2)]
  have c: "codes (isoformat x) =
      codes (zero_pad 4 (year x)) @ 45 # codes (zero_pad 2 (month x)) @ 45 #
      codes (zero_pad 2 (day x)) @ 84 # codes (zero_pad 2 (hour x)) @ 58 #
      codes (zero_pad 2 (minute x)) @ 58 # codes (zero_pad 2 (second x)) @
      codes (frac (microsecond x))" for x
    by (simp add: isoformat_def codes_def frac_def)
  have "lex_le (codes (isoformat a)) (codes (isoformat b)) \<longleftrightarrow>
          lex_le (dt_fields a) (dt_fields b)"
    unfolding c
    by (simp add: block_cmp lex_le_append Y M D H Mi S frac_order [OF u] dt_fields_def)
       (use nat_less_le in auto)
  then show ?thesis
    by (simp add: str_le_def dt_le_def codes_def)
qed

section \<open>The listing of the history\<close>

text \<open>An insertion sort by an arbitrary relation, to speak about the sorted results.\<close>

fun insert_by :: "('a \<Rightarrow> 'a \<Rightarrow> bool) \<Rightarrow> 'a \<Rightarrow> 'a list \<Rightarrow> 'a list" where
  "insert_by R x [] = [x]"
| "insert_by R x (y # ys) = (if R x y then x # y # ys else y # insert_by R x ys)"

definition isort_by :: "('a \<Rightarrow> 'a \<Rightarrow> bool) \<Rightarrow> 'a list \<Rightarrow> 'a list" where
  "isort_by R xs = foldr (insert_by R) xs []"

lemma insert_desc_by:
  "insert_desc E x ys = insert_by (\<lambda>a b. mongo_ge E (sort_key a) (sort_key b)) x ys"
  by (induction ys) auto

lemma sort_desc_by:
  "sort_desc E xs = isort_by (\<lambda>a b. mongo_ge E (sort_key a) (sort_key b)) xs"
  by (induction xs) (auto simp: sort_desc_def isort_by_def insert_desc_by)

lemma mset_insert_by: "mset (insert_by R x ys) = add_mset x (mset ys)"
  by (induction ys) auto

lemma mset_isort_by: "mset (isort_by R xs) = mset xs"
  by (induction xs) (auto simp: isort_by_def mset_insert_by)

lemma set_isort_by: "set (isort_by R xs) = set xs"
  using mset_isort_by [of R xs] by (metis set_mset_mset)

lemma isort_by_Cons: "isort_by R (x # xs) = insert_by R x (isort_by R xs)"
  by (simp add: isort_by_def)

lemma sorted_insert_by:
  assumes tot: "\<And>a b. R a b \<or> R b a" and trans: "\<And>a b c. R a b \<Longrightarrow> R b c \<Longrightarrow> R a c"
    and "sorted_wrt R ys"
  shows "sorted_wrt R (insert_by R x ys)"
  using assms(3)
proof (induction ys)
  case Nil
  then show ?case by simp
next
  case (Cons y ys)
  show ?case
  proof (cases "R x y")
    case True
    with Cons.prems trans show ?thesis by auto
  next
    case False
    with tot have yx: "R y x" by blast
    have "set (insert_by R x ys) = insert x (set ys)"
      using mset_insert_by [of R x ys] by (metis set_mset_mset set_mset_add_mset_insert)
    with Cons False yx show ?thesis by auto
  qed
qed

lemma sorted_isort_by:
  assumes "\<And>a b. R a b \<or> R b a" and "\<And>a b c. R a b \<Longrightarrow> R b c \<Longrightarrow> R a c"
  shows "sorted_wrt R (isort_by R xs)"
  by (induction xs) (simp_all add: isort_by_def sorted_insert_by [OF assms])

lemma map_insert_by:
  assumes "\<And>b. b \<in> set ys \<Longrightarrow> R' (f x) (f b) = R x b"
  shows "map f (insert_by R x ys) = insert_by R' (f x) (map f ys)"
  using assms by (induction ys) auto

lemma map_isort_by:
  assumes "\<And>a b. a \<in> set xs \<Longrightarrow> b \<in> set xs \<Longrightarrow> R' (f a) (f b) = R a b"
  shows "map f (isort_by R xs) = isort_by R' (map f xs)"
  using assms
proof (induction xs)
  case Nil
  then show ?case by (simp add: isort_by_def)
next
  case (Cons x xs)
  have ih: "map f (isort_by R xs) = isort_by R' (map f xs)"
    by (rule Cons.IH) (simp add: Cons.prems)
  have "map f (insert_by R x (isort_by R xs)) = insert_by R' (f x) (map f (isort_by R xs))"
    by (rule map_insert_by) (simp add: set_isort_by Cons.prems)
  with ih show ?case
    by (simp add: isort_by_Cons)
qed

lemma sort_key_document: "sort_key (analysis_document a) = Some (PStr (isoformat (upload_time a)))"
  by (simp add: sort_key_def analysis_document_eq dict_get_def)

lemma defect_roundtrip: "defect_of E (defect_dump d) = Some d"
  by (simp add: defect_of_def defect_dump_def defect_fields_def dict_get_def validate_str_def
      validate_float_def)

lemma those_defects: "those (map (defect_of E \<circ> defect_dump) ds) = Some ds"
  by (induction ds) (simp_all add: defect_roundtrip)

lemma result_fields_dump: "result_fields E i (model_dump a) = Some a"
  by (cases "image_base64 a")
     (simp_all add: result_fields_def model_dump_def dict_get_def validate_str_def
       validate_int_def validate_bool_def validate_datetime_def those_defects)

lemma normalise_document:
  assumes "fromisoformat E (isoformat (upload_time a)) = Some (upload_time a)"
  shows "normalise_time E (analysis_document a) = Inr (model_dump a)"
  using assms by (simp add: normalise_time_def analysis_document_eq dict_get_def model_dump_def)

lemma normalise_native: "normalise_time E (model_dump a) = Inr (model_dump a)"
  by (simp add: normalise_time_def model_dump_def dict_get_def)

lemma history_records_documents:
  assumes "\<forall>a \<in> set rs. fromisoformat E (isoformat (upload_time a)) = Some (upload_time a)"
  shows "history_records E i (map analysis_document rs) = Inr rs"
  using assms
  by (induction rs arbitrary: i)
     (simp_all add: normalise_document AnalysisResult_of_def result_fields_dump)

lemma history_records_native: "history_records E i (map model_dump rs) = Inr rs"
  by (induction rs arbitrary: i)
     (simp_all add: normalise_native AnalysisResult_of_def result_fields_dump)

lemma dt_ge_total: "dt_le (upload_time b) (upload_time a) \<or> dt_le (upload_time a) (upload_time b)"
  using lex_le_total by (auto simp: dt_le_def)

lemma dt_ge_trans:
  "dt_le (upload_time b) (upload_time a) \<Longrightarrow> dt_le (upload_time c) (upload_time b) \<Longrightarrow>
   dt_le (upload_time c) (upload_time a)"
  using lex_le_trans by (auto simp: dt_le_def)

lemma sort_desc_documents:
  assumes "\<forall>a \<in> set rs. valid_datetime (upload_time a)"
  shows "sort_desc E (map analysis_document rs) =
           map analysis_document (isort_by (\<lambda>a b. dt_le (upload_time b) (upload_time a)) rs)"
  unfolding sort_desc_by
  by (rule map_isort_by [symmetric])
     (simp add: sort_key_document mongo_ge_def isoformat_order assms)

lemma history_documents:
  assumes "find_error E = None" and "0 \<le> (case q of None \<Rightarrow> 10 | Some k \<Rightarrow> k)"
    and "\<forall>a \<in> set rs. valid_datetime (upload_time a)
          \<and> fromisoformat E (isoformat (upload_time a)) = Some (upload_time a)"
  shows "get_analysis_history E (map analysis_document rs) q =
           Inr (take (nat (case q of None \<Rightarrow> 10 | Some k \<Rightarrow> k))
                  (isort_by (\<lambda>a b. dt_le (upload_time b) (upload_time a)) rs))"
proof -
  let ?s = "isort_by (\<lambda>a b. dt_le (upload_time b) (upload_time a)) rs"
  let ?k = "nat (case q of None \<Rightarrow> 10 | Some k \<Rightarrow> k)"
  have v: "\<forall>a \<in> set rs. valid_datetime (upload_time a)"
    using assms(3) by blast
  have "set (take ?k ?s) \<subseteq> set rs"
    using set_take_subset [of ?k ?s] by (simp add: set_isort_by)
  with assms(3) have
    f: "\<forall>a \<in> set (take ?k ?s). fromisoformat E (isoformat (upload_time a)) = Some (upload_time a)"
    by blast
  have "find_recent E (map analysis_document rs) (case q of None \<Rightarrow> 10 | Some k \<Rightarrow> k)
          = Inr (map analysis_document (take ?k ?s))"
    using assms(1,2) by (simp add: find_recent_def sort_desc_documents [OF v] take_map)
  then show ?thesis
    by (simp add: get_analysis_history_def history_records_documents [OF f])
qed

text \<open>
  Claim C8. Let the collection hold the documents of \<open>N\<close> analyses, as the analyze
  endpoint inserts them, with valid upload times that \<open>fromisoformat\<close> reads back, and
  let the query succeed. Called with a limit \<open>K\<close>, \<open>0 \<le> K < N\<close>, the history endpoint
  returns exactly \<open>K\<close> records: the first \<open>K\<close> of the stored results put in descending
  order of upload time, that is the \<open>K\<close> most recent ones, newest first, each with its
  time as a \<open>datetime\<close> again. Without a limit it returns the first 10 of them. A
  document that stores the time as a native timestamp instead of a string yields the
  same record.
\<close>

theorem history_most_recent:
  assumes "find_error E = None"
    and "0 \<le> K" and "nat K < length rs"
    and "\<forall>a \<in> set rs. valid_datetime (upload_time a)
          \<and> fromisoformat E (isoformat (upload_time a)) = Some (upload_time a)"
  shows "\<exists>sorted_rs. mset sorted_rs = mset rs
           \<and> sorted_wrt (\<lambda>a b. dt_le (upload_time b) (upload_time a)) sorted_rs
           \<and> get_analysis_history E (map analysis_document rs) (Some K)
               = Inr (take (nat K) sorted_rs)
           \<and> length (take (nat K) sorted_rs) = nat K
           \<and> get_analysis_history E (map analysis_document rs) None
               = Inr (take 10 sorted_rs)
           \<and> history_records E 0 (map model_dump (take (nat K) sorted_rs))
               = Inr (take (nat K) sorted_rs)"
proof -
  let ?s = "isort_by (\<lambda>a b. dt_le (upload_time b) (upload_time a)) rs"
  have "mset ?s = mset rs"
    by (rule mset_isort_by)
  moreover have "sorted_wrt (\<lambda>a b. dt_le (upload_time b) (upload_time a)) ?s"
    by (rule sorted_isort_by) (use dt_ge_total dt_ge_trans in blast)+
  moreover have "get_analysis_history E (map analysis_document rs) (Some K)
                   = Inr (take (nat K) ?s)"
    using history_documents [OF assms(1) _ assms(4), of "Some K"] assms(2) by simp
  moreover have "length (take (nat K) ?s) = nat K"
    using assms(3) mset_eq_length [OF mset_isort_by, of _ rs] by simp
  moreover have "get_analysis_history E (map analysis_document rs) None = Inr (take 10 ?s)"
    using history_documents [OF assms(1) _ assms(4), of None] by simp
  moreover have "history_records E 0 (map model_dump (take (nat K) ?s)) = Inr (take (nat K) ?s)"
    by (rule history_records_native)
  ultimately show ?thesis by blast
qed

lemma digits2: "digits 2 n = [digit_char (n div 10 mod 10), digit_char (n mod 10)]"
proof -
  have "(2::nat) = Suc (Suc 0)" by simp
  then show ?thesis by (simp only: digits.simps) simp
qed

lemma digits4:
  "digits 4 n = [digit_char (n div 10 div 10 div 10 mod 10),
                 digit_char (n div 10 div 10 mod 10),
                 digit_char (n div 10 mod 10), digit_char (n mod 10)]"
proof -
  have "(4::nat) = Suc (Suc (Suc (Suc 0)))" by simp
  then show ?thesis by (simp only: digits.simps) simp
qed

lemma digits6:
  "digits 6 n = [digit_char (n div 10 div 10 div 10 div 10 div 10 mod 10),
                 digit_char (n div 10 div 10 div 10 div 10 mod 10),
                 digit_char (n div 10 div 10 div 10 mod 10),
                 digit_char (n div 10 div 10 mod 10),
                 digit_char (n div 10 mod 10), digit_char (n mod 10)]"
proof -
  have "(6::nat) = Suc (Suc (Suc (Suc (Suc (Suc 0)))))" by simp
  then show ?thesis by (simp only: digits.simps) simp
qed

lemma isoformat_demo_later: "isoformat demo_later = ''2024-05-17T09:30:00.250000''"
  by (simp add: isoformat_def demo_later_def zero_pad_digits digits2 digits4 digits6
      digit_char_def)

lemma isoformat_demo_earlier: "isoformat demo_earlier = ''2023-12-31T23:59:59.999999''"
  by (simp add: isoformat_def demo_earlier_def zero_pad_digits digits2 digits4 digits6
      digit_char_def)

lemma demo_results_ok:
  "list_all (\<lambda>a. valid_datetime (upload_time a)
               \<and> fromisoformat (replying ''{}'') (isoformat (upload_time a))
                   = Some (upload_time a)) demo_results"
  by (simp add: demo_results_def demo_at_def demo_analysis_def isoformat_demo_now
      isoformat_demo_later isoformat_demo_earlier replying_def demo_env_def demo_times_def)
     (simp add: valid_datetime_def demo_now_def demo_later_def demo_earlier_def)

lemma sort_demo_results:
  "isort_by (\<lambda>a b. dt_le (upload_time b) (upload_time a)) demo_results =
     [demo_at demo_later, demo_at demo_now, demo_at demo_earlier]"
  by (simp add: demo_results_def isort_by_def demo_at_def dt_le_def dt_fields_def
      demo_now_def demo_later_def demo_earlier_def)

theorem history_most_recent_witness:
  "find_error (replying ''{}'') = None \<and> (0::int) \<le> 2 \<and> nat 2 < length demo_results
   \<and> list_all (\<lambda>a. valid_datetime (upload_time a)
                  \<and> fromisoformat (replying ''{}'') (isoformat (upload_time a))
                      = Some (upload_time a)) demo_results
   \<and> (\<exists>sorted_rs. mset sorted_rs = mset demo_results
           \<and> sorted_wrt (\<lambda>a b. dt_le (upload_time b) (upload_time a)) sorted_rs
           \<and> get_analysis_history (replying ''{}'') (map analysis_document demo_results) (Some 2)
               = Inr (take (nat 2) sorted_rs)
           \<and> length (take (nat 2) sorted_rs) = nat 2
           \<and> get_analysis_history (replying ''{}'') (map analysis_document demo_results) None
               = Inr (take 10 sorted_rs)
           \<and> history_records (replying ''{}'') 0 (map model_dump (take (nat 2) sorted_rs))
               = Inr (take (nat 2) sorted_rs))
   \<and> get_analysis_history (replying ''{}'') (map analysis_document demo_results) (Some 2)
       = Inr [demo_at demo_later, demo_at demo_now]"
proof -
  let ?E = "replying ''{}''"
  have f: "find_error ?E = None"
    by (simp add: replying_def demo_env_def)
  have k: "(0::int) \<le> 2" "nat 2 < length demo_results"
    by (simp_all add: demo_results_def)
  have h: "\<forall>a \<in> set demo_results. valid_datetime (upload_time a)
             \<and> fromisoformat ?E (isoformat (upload_time a)) = Some (upload_time a)"
    using demo_results_ok by (simp add: list_all_iff)
  have e: "get_analysis_history ?E (map analysis_document demo_results) (Some 2)
             = Inr [demo_at demo_later, demo_at demo_now]"
    using history_documents [OF f _ h, of "Some 2"] by (simp add: sort_demo_results)
  from history_most_recent [OF f k h] f k demo_results_ok e
  show ?thesis by blast
qed

end
